theory Spec2Isabelle
  imports Complex_Main "HOL-Library.AList"
begin

section \<open>Values, exceptions and contracts\<close>

text \<open>
  The library is Python 2 (\<^verbatim>\<open>__metaclass__\<close>, \<^verbatim>\<open>basestring\<close>,
  \<^verbatim>\<open>except ContractValidationError as (errno, )\<close>). The values a contract is handed are
  those of deserialized payloads and of call arguments, modelled as a datatype. Python 2 has
  two integer types: \<^verbatim>\<open>int\<close> (machine range) and \<^verbatim>\<open>long\<close> (a literal \<^verbatim>\<open>5L\<close>,
  or any integer beyond the machine range, as \<^verbatim>\<open>json.loads\<close> returns it for a large
  number); \<^verbatim>\<open>bool\<close> is a subclass of \<^verbatim>\<open>int\<close>, \<^verbatim>\<open>long\<close> is not. A float is a
  rational, an infinity or a NaN: the contracts only compare floats, they never compute with
  them. \<open>VStr\<close> is a text value (\<^verbatim>\<open>basestring\<close>). The keys of a mapping are strings, as
  those of a deserialized object are (the keys a \<^verbatim>\<open>DictC\<close> declares are keyword names), and
  a mapping is an association list, with distinct keys, in the order in which the dictionary
  enumerates its items. \<open>VCallable\<close> is a callable object and \<open>VObject\<close> any other object,
  each known by its identity.
\<close>

datatype pyfloat = Finite rat | PosInf | NegInf | NaN

datatype pyvalue =
    VNone
  | VBool bool
  | VInt int
  | VLong int
  | VFloat pyfloat
  | VStr string
  | VList "pyvalue list"
  | VDict "(string \<times> pyvalue) list"
  | VCallable nat
  | VObject nat

text \<open>
  Exceptions are values. \<open>NotImplementedError\<close> is what the base class raises,
  \<open>RuntimeError\<close> is the configuration error of the constructors, \<open>TypeError\<close> and
  \<open>AttributeError\<close> are raised by the interpreter, \<open>OtherError\<close> is any exception a
  user-supplied function raises.
\<close>

datatype exn =
    ContractValidationError string
  | GuardValidationError string
  | NotImplementedError
  | RuntimeError string
  | TypeError
  | AttributeError
  | OtherError string

text \<open>
  A contract object together with the sub-contracts it owns. \<open>Contract\<close> is an instance of
  the base class. The fields of \<open>DictC\<close> are, in the order of \<^verbatim>\<open>__init__\<close>:
  \<^verbatim>\<open>optionals\<close>, \<^verbatim>\<open>extras\<close>, \<^verbatim>\<open>allow_any\<close>, \<^verbatim>\<open>contracts\<close> (in the
  dictionary's enumeration order). The bounds of \<open>IntC\<close> are integers or \<^verbatim>\<open>None\<close>; the
  bounds of \<open>FloatC\<close> are taken to be integers as well, as in the doctests
  (\<^verbatim>\<open>FloatC(min_=1)\<close>), so that their rendering in a message is decimal. The predicate of
  \<open>CallC\<close> returns \<^verbatim>\<open>None\<close> or a message, or raises.
\<close>

datatype contract =
    Contract
  | AnyC
  | OrC "contract list"
  | NullC
  | IntC "int option" "int option"
  | FloatC "int option" "int option"
  | StringC bool
  | ListC contract int "int option"
  | DictC "string list" "string list" bool "(string \<times> contract) list"
  | EnumC "pyvalue list"
  | CallableC
  | CallC "pyvalue \<Rightarrow> exn + string option"

section \<open>Helpers of the interpreter\<close>

text \<open>\<^verbatim>\<open>"%s" % n\<close> for an integer: its decimal rendering.\<close>

fun str_nat :: "nat \<Rightarrow> string" where
  "str_nat n =
     (if n < 10 then [''0123456789'' ! n]
      else str_nat (n div 10) @ [''0123456789'' ! (n mod 10)])"

declare str_nat.simps [simp del]

definition str_int :: "int \<Rightarrow> string" where
  "str_int i = (if i < 0 then CHR ''-'' # str_nat (nat (- i)) else str_nat (nat i))"

text \<open>\<^verbatim>\<open>isinstance(value, int)\<close>: a plain integer or a boolean, with its integer value.\<close>

fun int_instance :: "pyvalue \<Rightarrow> int option" where
  "int_instance (VInt n) = Some n"
| "int_instance (VBool b) = Some (if b then 1 else 0)"
| "int_instance v = None"

text \<open>Comparison of a float with an integer bound; every comparison with a NaN is false.\<close>

fun float_less_int :: "pyfloat \<Rightarrow> int \<Rightarrow> bool" where
  "float_less_int (Finite q) n = (q < of_int n)"
| "float_less_int NegInf n = True"
| "float_less_int f n = False"

fun float_greater_int :: "pyfloat \<Rightarrow> int \<Rightarrow> bool" where
  "float_greater_int (Finite q) n = (of_int n < q)"
| "float_greater_int PosInf n = True"
| "float_greater_int f n = False"

text \<open>
  Python's \<^verbatim>\<open>==\<close> on the modelled values: numbers compare by value across the numeric
  types (a NaN equals nothing), sequences element by element, mappings as mappings, objects
  by identity.
\<close>

fun num_value :: "pyvalue \<Rightarrow> pyfloat option" where
  "num_value (VBool b) = Some (Finite (if b then 1 else 0))"
| "num_value (VInt n) = Some (Finite (of_int n))"
| "num_value (VLong n) = Some (Finite (of_int n))"
| "num_value (VFloat f) = Some f"
| "num_value v = None"

fun py_eq :: "pyvalue \<Rightarrow> pyvalue \<Rightarrow> bool"
  and py_eq_list :: "pyvalue list \<Rightarrow> pyvalue list \<Rightarrow> bool"
  and py_eq_items :: "(string \<times> pyvalue) list \<Rightarrow> (string \<times> pyvalue) list \<Rightarrow> bool" where
  "py_eq (VList xs) w = (case w of VList ys \<Rightarrow> py_eq_list xs ys | _ \<Rightarrow> False)"
| "py_eq (VDict kvs) w =
     (case w of VDict kws \<Rightarrow> length kvs = length kws \<and> py_eq_items kvs kws | _ \<Rightarrow> False)"
| "py_eq VNone w = (w = VNone)"
| "py_eq (VStr s) w = (w = VStr s)"
| "py_eq (VCallable i) w = (w = VCallable i)"
| "py_eq (VObject i) w = (w = VObject i)"
| "py_eq v w =
     (case (num_value v, num_value w) of
        (Some a, Some b) \<Rightarrow> a = b \<and> a \<noteq> NaN
      | _ \<Rightarrow> False)"
| "py_eq_list [] ys = (ys = [])"
| "py_eq_list (x # xs) ys =
     (case ys of [] \<Rightarrow> False | y # ys' \<Rightarrow> py_eq x y \<and> py_eq_list xs ys')"
| "py_eq_items [] kws = True"
| "py_eq_items ((k, x) # kvs) kws =
     (case map_of kws k of None \<Rightarrow> False | Some y \<Rightarrow> py_eq x y \<and> py_eq_items kvs kws)"

text \<open>
  \<^verbatim>\<open>value in self.variants\<close>, by \<^verbatim>\<open>==\<close>. (Python tests the identity of the two
  objects first, which matters for a NaN only: identity of numbers is not modelled.)
\<close>

fun py_in :: "pyvalue \<Rightarrow> pyvalue list \<Rightarrow> bool" where
  "py_in v [] = False"
| "py_in v (w # ws) = (py_eq v w \<or> py_in v ws)"

section \<open>check\<close>

text \<open>\<^verbatim>\<open>Contract._failure\<close>: raise the validation error.\<close>

definition failure :: "string \<Rightarrow> exn + unit" where
  "failure message = Inl (ContractValidationError message)"

text \<open>
  A method may assign to the fields of its object, so \<open>check\<close> returns, next to its
  outcome (\<open>Inr ()\<close> when it returns normally, \<open>Inl e\<close> when it raises \<open>e\<close>), the
  contract as the call leaves it. The loops of the composite contracts call \<open>check\<close> on
  sub-contracts; they take it as the parameter \<open>chk\<close> and hand the sub-contracts back as
  the calls left them.

  \<^verbatim>\<open>OrC.check\<close>: the loop over \<^verbatim>\<open>self.contracts\<close>. A validation error of a
  sub-contract is swallowed and the next one is tried; a normal return ends the loop; any
  other exception propagates.
\<close>

fun or_loop ::
  "(contract \<Rightarrow> (exn + unit) \<times> contract) \<Rightarrow> contract list \<Rightarrow> (exn + unit) \<times> contract list" where
  "or_loop chk [] = (failure ''no one contract matches'', [])"
| "or_loop chk (c # cs) =
     (case chk c of
        (Inr u, c') \<Rightarrow> (Inr (), c' # cs)
      | (Inl (ContractValidationError m), c') \<Rightarrow>
          (case or_loop chk cs of (r, cs') \<Rightarrow> (r, c' # cs'))
      | (Inl e, c') \<Rightarrow> (Inl e, c' # cs))"

lemma or_loop_cong [fundef_cong]:
  "cs = ds \<Longrightarrow> (\<And>c. c \<in> set ds \<Longrightarrow> f c = g c) \<Longrightarrow> or_loop f cs = or_loop g ds"
  by (induction ds arbitrary: cs) (auto split: prod.splits sum.splits exn.splits)

text \<open>\<^verbatim>\<open>ListC.check\<close>: \<^verbatim>\<open>for item in value: self.contract.check(item)\<close>.\<close>

fun list_loop ::
  "(contract \<Rightarrow> pyvalue \<Rightarrow> (exn + unit) \<times> contract) \<Rightarrow> contract \<Rightarrow> pyvalue list
     \<Rightarrow> (exn + unit) \<times> contract" where
  "list_loop chk c [] = (Inr (), c)"
| "list_loop chk c (x # xs) =
     (case chk c x of
        (Inl e, c') \<Rightarrow> (Inl e, c')
      | (Inr u, c') \<Rightarrow> list_loop chk c' xs)"

lemma list_loop_cong [fundef_cong]:
  "xs = ys \<Longrightarrow> c = d \<Longrightarrow> (\<And>c x. x \<in> set ys \<Longrightarrow> f c x = g c x)
     \<Longrightarrow> list_loop f c xs = list_loop g d ys"
  by (induction ys arbitrary: xs c d) (auto split: prod.splits sum.splits)

text \<open>
  \<^verbatim>\<open>DictC.check_presence\<close>: the loop over the declared keys, \<open>keys\<close> being the keys of
  \<^verbatim>\<open>self.contracts\<close> in enumeration order.
\<close>

fun check_presence :: "string list \<Rightarrow> string list \<Rightarrow> (string \<times> pyvalue) list \<Rightarrow> exn + unit" where
  "check_presence [] optionals kvs = Inr ()"
| "check_presence (key # keys) optionals kvs =
     (if key \<notin> set optionals \<and> key \<notin> set (map fst kvs)
      then failure (key @ '' is required'')
      else check_presence keys optionals kvs)"

text \<open>\<^verbatim>\<open>DictC.check_item\<close>, on the fields \<^verbatim>\<open>extras\<close>, \<^verbatim>\<open>allow_any\<close>, \<^verbatim>\<open>contracts\<close>.\<close>

fun check_item ::
  "(contract \<Rightarrow> pyvalue \<Rightarrow> (exn + unit) \<times> contract) \<Rightarrow> string list \<Rightarrow> bool
     \<Rightarrow> (string \<times> contract) list \<Rightarrow> string \<times> pyvalue
     \<Rightarrow> (exn + unit) \<times> (string \<times> contract) list" where
  "check_item chk extras allow_any contracts (key, x) =
     (case map_of contracts key of
        Some c \<Rightarrow> (case chk c x of (r, c') \<Rightarrow> (r, AList.update key c' contracts))
      | None \<Rightarrow>
          if \<not> allow_any \<and> key \<notin> set extras
          then (failure (key @ '' is not allowed key''), contracts)
          else (Inr (), contracts))"

text \<open>\<^verbatim>\<open>map(self.check_item, value.items())\<close>: Python 2's eager \<^verbatim>\<open>map\<close>.\<close>

fun check_items ::
  "(contract \<Rightarrow> pyvalue \<Rightarrow> (exn + unit) \<times> contract) \<Rightarrow> string list \<Rightarrow> bool
     \<Rightarrow> (string \<times> contract) list \<Rightarrow> (string \<times> pyvalue) list
     \<Rightarrow> (exn + unit) \<times> (string \<times> contract) list" where
  "check_items chk extras allow_any contracts [] = (Inr (), contracts)"
| "check_items chk extras allow_any contracts (item # items) =
     (case check_item chk extras allow_any contracts item of
        (Inl e, contracts') \<Rightarrow> (Inl e, contracts')
      | (Inr u, contracts') \<Rightarrow> check_items chk extras allow_any contracts' items)"

lemma check_item_cong [fundef_cong]:
  "item = item' \<Longrightarrow> extras = extras' \<Longrightarrow> allow_any = allow_any' \<Longrightarrow> contracts = contracts'
     \<Longrightarrow> (\<And>c. f c (snd item') = g c (snd item'))
     \<Longrightarrow> check_item f extras allow_any contracts item
         = check_item g extras' allow_any' contracts' item'"
  by (cases item') (auto split: option.splits prod.splits)

lemma check_items_cong [fundef_cong]:
  "items = items' \<Longrightarrow> extras = extras' \<Longrightarrow> allow_any = allow_any' \<Longrightarrow> contracts = contracts'
     \<Longrightarrow> (\<And>c item. item \<in> set items' \<Longrightarrow> f c (snd item) = g c (snd item))
     \<Longrightarrow> check_items f extras allow_any contracts items
         = check_items g extras' allow_any' contracts' items'"
proof (induction items' arbitrary: items contracts contracts')
  case Nil
  then show ?case by simp
next
  case (Cons item rest)
  have "check_item f extras allow_any contracts item
          = check_item g extras' allow_any' contracts' item"
    using Cons.prems by (intro check_item_cong) auto
  moreover have "check_items f extras allow_any cs rest
          = check_items g extras' allow_any' cs rest" for cs
    using Cons.prems by (intro Cons.IH) auto
  ultimately show ?case
    using Cons.prems(1) by (simp split: prod.splits sum.splits)
qed

text \<open>The \<^verbatim>\<open>check\<close> method of every contract class.\<close>

fun check :: "contract \<Rightarrow> pyvalue \<Rightarrow> (exn + unit) \<times> contract" where
  "check Contract v = (Inl NotImplementedError, Contract)"
| "check AnyC v = (Inr (), AnyC)"
| "check (OrC contracts) v =
     (case or_loop (\<lambda>c. check c v) contracts of (r, contracts') \<Rightarrow> (r, OrC contracts'))"
| "check NullC v =
     (if v \<noteq> VNone then failure ''value should be None'' else Inr (), NullC)"
| "check (IntC mn mx) v =
     (case int_instance v of
        None \<Rightarrow> failure ''value is not int''
      | Some n \<Rightarrow>
          if mn \<noteq> None \<and> n < the mn
          then failure (''value is less than '' @ str_int (the mn))
          else if mx \<noteq> None \<and> n > the mx
          then failure (''value is greater than '' @ str_int (the mx))
          else Inr (),
      IntC mn mx)"
| "check (FloatC mn mx) v =
     (case v of
        VFloat f \<Rightarrow>
          if mn \<noteq> None \<and> float_less_int f (the mn)
          then failure (''value is less than '' @ str_int (the mn))
          else if mx \<noteq> None \<and> float_greater_int f (the mx)
          then failure (''value is greater than '' @ str_int (the mx))
          else Inr ()
      | _ \<Rightarrow> failure ''value is not float'',
      FloatC mn mx)"
| "check (StringC allow_blank) v =
     (case v of
        VStr s \<Rightarrow>
          if \<not> allow_blank \<and> length s = 0
          then failure ''blank value is not allowed''
          else Inr ()
      | _ \<Rightarrow> failure ''value is not string'',
      StringC allow_blank)"
| "check (ListC c min_length max_length) v =
     (case v of
        VList xs \<Rightarrow>
          if int (length xs) < min_length
          then (failure (''list length is less than '' @ str_int min_length),
                ListC c min_length max_length)
          else if max_length \<noteq> None \<and> int (length xs) > the max_length
          then (failure (''list length is greater than '' @ str_int (the max_length)),
                ListC c min_length max_length)
          else (case list_loop check c xs of (r, c') \<Rightarrow> (r, ListC c' min_length max_length))
      | _ \<Rightarrow> (failure ''value is not list'', ListC c min_length max_length))"
| "check (DictC optionals extras allow_any contracts) v =
     (case v of
        VDict kvs \<Rightarrow>
          (case check_presence (map fst contracts) optionals kvs of
             Inl e \<Rightarrow> (Inl e, DictC optionals extras allow_any contracts)
           | Inr u \<Rightarrow>
               (case check_items check extras allow_any contracts kvs of
                  (r, contracts') \<Rightarrow> (r, DictC optionals extras allow_any contracts')))
      | _ \<Rightarrow> (failure ''value is not dict'', DictC optionals extras allow_any contracts))"
| "check (EnumC variants) v =
     (if \<not> py_in v variants
      then failure (''value doesn'' @ [CHR 0x27] @ ''t match any variant'')
      else Inr (),
      EnumC variants)"
| "check CallableC v =
     (case v of VCallable i \<Rightarrow> Inr () | _ \<Rightarrow> failure ''value is not callable'', CallableC)"
| "check (CallC fn) v =
     (case fn v of
        Inl e \<Rightarrow> Inl e
      | Inr error \<Rightarrow> if error \<noteq> None then failure (the error) else Inr (),
      CallC fn)"

text \<open>What a call of \<^verbatim>\<open>check\<close> raises or returns, without the contract it leaves.\<close>

definition outcome :: "contract \<Rightarrow> pyvalue \<Rightarrow> exn + unit" where
  "outcome c v = fst (check c v)"

text \<open>
  What \<^verbatim>\<open>DictC.check_item\<close> raises or returns for one item of the value, the
  sub-contracts being checked with \<open>check\<close>.
\<close>

definition item_outcome ::
  "string list \<Rightarrow> bool \<Rightarrow> (string \<times> contract) list \<Rightarrow> string \<times> pyvalue \<Rightarrow> exn + unit" where
  "item_outcome extras allow_any contracts item = fst (check_item check extras allow_any contracts item)"

section \<open>Constructing a CallC\<close>

text \<open>
  What \<^verbatim>\<open>CallC.__init__\<close> can see of its argument: whether it is callable, and what
  \<^verbatim>\<open>inspect.getargspec\<close> reports for it. \<open>PyFunction args ndefaults fn\<close> is a Python
  function (or a method) with the parameter names \<open>args\<close>, the last \<open>ndefaults\<close> of
  them with a default, \<open>fn\<close> being what a call with one argument does. For any other callable
  (a builtin, a class, an object with \<^verbatim>\<open>__call__\<close>) \<^verbatim>\<open>getargspec\<close> raises
  \<^verbatim>\<open>TypeError\<close>.
\<close>

datatype callee =
    NotCallable
  | PyFunction "string list" nat "pyvalue \<Rightarrow> exn + string option"
  | OtherCallable "pyvalue \<Rightarrow> exn + string option"

text \<open>\<^verbatim>\<open>len(argspec.args) - len(argspec.defaults or [])\<close>.\<close>

definition required_args :: "string list \<Rightarrow> nat \<Rightarrow> int" where
  "required_args args ndefaults = int (length args) - int ndefaults"

fun CallC_init :: "callee \<Rightarrow> exn + contract" where
  "CallC_init NotCallable = Inl (RuntimeError ''CallC argument should be callable'')"
| "CallC_init (OtherCallable fn) = Inl TypeError"
| "CallC_init (PyFunction args ndefaults fn) =
     (if required_args args ndefaults > 1
      then Inl (RuntimeError ''CallC argument should be one argument function'')
      else Inr (CallC fn))"

section \<open>guard\<close>

text \<open>
  The loop of \<^verbatim>\<open>decor\<close> over the supplied arguments. \<open>contracts\<close> is the dictionary of the
  guard, of which only the lookup is used. A call of \<open>check\<close> leaves its contract as it was
  (lemma \<open>check_frame\<close> below), so the loop keeps the outcome only.
\<close>

fun check_args :: "(string \<Rightarrow> contract option) \<Rightarrow> (string \<times> pyvalue) list \<Rightarrow> exn + unit" where
  "check_args contracts [] = Inr ()"
| "check_args contracts ((argname, v) # rest) =
     (case contracts argname of
        None \<Rightarrow> check_args contracts rest
      | Some c \<Rightarrow>
          (case outcome c v of
             Inl e \<Rightarrow> Inl e
           | Inr u \<Rightarrow> check_args contracts rest))"

text \<open>
  \<^verbatim>\<open>decor(*args, **kwargs)\<close>, for the wrapped function \<open>fn\<close> with the parameter names
  \<open>argspec_args\<close>. The wrapped function runs in a state \<open>s\<close> of the program, which it may
  change.
\<close>

definition decor ::
  "(string \<Rightarrow> contract option) \<Rightarrow> string list
     \<Rightarrow> (pyvalue list \<Rightarrow> (string \<times> pyvalue) list \<Rightarrow> 's \<Rightarrow> (exn + pyvalue) \<times> 's)
     \<Rightarrow> pyvalue list \<Rightarrow> (string \<times> pyvalue) list \<Rightarrow> 's \<Rightarrow> (exn + pyvalue) \<times> 's" where
  "decor contracts argspec_args fn args kwargs s =
     (case check_args contracts (zip argspec_args args @ kwargs) of
        Inl (ContractValidationError errno) \<Rightarrow> (Inl (GuardValidationError errno), s)
      | Inl e \<Rightarrow> (Inl e, s)
      | Inr u \<Rightarrow> fn args kwargs s)"

section \<open>Contract objects in a store: the operators and the builder methods\<close>

text \<open>
  The operators and the builder methods return an object, which is a new one or the one they
  were called on. To tell the two apart the contract objects a program holds are kept in a
  store, a reference being an index into it; the references handed to an operation are
  valid (\<open>a < length h\<close>). An object owns its sub-contracts, as they are when it takes them:
  a contract that refers, directly or not, to itself is outside this model, and so is the
  effect that a builder method called on an operand has, afterwards, on the \<^verbatim>\<open>OrC\<close> that
  holds the operand.
\<close>

type_synonym addr = nat

type_synonym store = "contract list"

text \<open>The contract classes, and \<^verbatim>\<open>cls()\<close>: a constructor called with no argument.\<close>

datatype cls =
    ContractCls | AnyCCls | OrCCls | NullCCls | IntCCls | FloatCCls | StringCCls
  | ListCCls | DictCCls | EnumCCls | CallableCCls | CallCCls

fun instantiate :: "cls \<Rightarrow> exn + contract" where
  "instantiate ContractCls = Inr Contract"
| "instantiate AnyCCls = Inr AnyC"
| "instantiate OrCCls = Inr (OrC [])"
| "instantiate NullCCls = Inr NullC"
| "instantiate IntCCls = Inr (IntC None None)"
| "instantiate FloatCCls = Inr (FloatC None None)"
| "instantiate StringCCls = Inr (StringC False)"
| "instantiate ListCCls = Inl TypeError"
| "instantiate DictCCls = Inr (DictC [] [] False [])"
| "instantiate EnumCCls = Inr (EnumC [])"
| "instantiate CallableCCls = Inr CallableC"
| "instantiate CallCCls = Inl TypeError"

text \<open>
  What can stand where a contract is expected: a contract instance, a contract class, a class
  that is no contract class, or something that is no class at all.
\<close>

datatype operand = Instance addr | Class cls | ForeignClass | NotAClass

text \<open>
  \<^verbatim>\<open>Contract._contract\<close>. (The message of its \<^verbatim>\<open>RuntimeError\<close> starts with the
  \<^verbatim>\<open>repr\<close> of the argument, which is left out.)
\<close>

fun as_contract :: "store \<Rightarrow> operand \<Rightarrow> exn + contract" where
  "as_contract h (Instance a) = Inr (h ! a)"
| "as_contract h (Class k) = instantiate k"
| "as_contract h ForeignClass = Inl (RuntimeError '' should be instance or subclass of Contract'')"
| "as_contract h NotAClass = Inl TypeError"

text \<open>\<^verbatim>\<open>map(self._contract, contracts)\<close>.\<close>

fun as_contracts :: "store \<Rightarrow> operand list \<Rightarrow> exn + contract list" where
  "as_contracts h [] = Inr []"
| "as_contracts h (x # xs) =
     (case as_contract h x of
        Inl e \<Rightarrow> Inl e
      | Inr c \<Rightarrow> (case as_contracts h xs of Inl e \<Rightarrow> Inl e | Inr cs \<Rightarrow> Inr (c # cs)))"

text \<open>\<^verbatim>\<open>OrC(*contracts)\<close>: the new object.\<close>

definition OrC_init :: "store \<Rightarrow> operand list \<Rightarrow> exn + contract" where
  "OrC_init h contracts =
     (case as_contracts h contracts of Inl e \<Rightarrow> Inl e | Inr cs \<Rightarrow> Inr (OrC cs))"

text \<open>\<^verbatim>\<open>Contract.__or__\<close>: \<^verbatim>\<open>return OrC(self, other)\<close>.\<close>

definition Contract_or :: "store \<Rightarrow> addr \<Rightarrow> operand \<Rightarrow> exn + addr \<times> store" where
  "Contract_or h self other =
     (case OrC_init h [Instance self, other] of
        Inl e \<Rightarrow> Inl e
      | Inr c \<Rightarrow> Inr (length h, h @ [c]))"

text \<open>\<^verbatim>\<open>OrC.__lshift__\<close>: \<^verbatim>\<open>self.contracts.append(self._contract(contract)); return self\<close>.\<close>

definition OrC_lshift :: "store \<Rightarrow> addr \<Rightarrow> operand \<Rightarrow> exn + addr \<times> store" where
  "OrC_lshift h self contract =
     (case h ! self of
        OrC contracts \<Rightarrow>
          (case as_contract h contract of
             Inl e \<Rightarrow> Inl e
           | Inr c \<Rightarrow> Inr (self, h[self := OrC (contracts @ [c])]))
      | _ \<Rightarrow> Inl AttributeError)"

text \<open>\<^verbatim>\<open>OrC.__or__\<close>: \<^verbatim>\<open>self << contract; return self\<close>.\<close>

definition OrC_or :: "store \<Rightarrow> addr \<Rightarrow> operand \<Rightarrow> exn + addr \<times> store" where
  "OrC_or h self contract =
     (case OrC_lshift h self contract of
        Inl e \<Rightarrow> Inl e
      | Inr (r, h') \<Rightarrow> Inr (self, h'))"

text \<open>
  \<^verbatim>\<open>self | other\<close> for an instance: Python looks \<^verbatim>\<open>__or__\<close> up in the class of
  \<^verbatim>\<open>self\<close>, and \<^verbatim>\<open>OrC\<close> overrides the method of the base class.
\<close>

definition or_instance :: "store \<Rightarrow> addr \<Rightarrow> operand \<Rightarrow> exn + addr \<times> store" where
  "or_instance h self other =
     (case h ! self of
        OrC contracts \<Rightarrow> OrC_or h self other
      | _ \<Rightarrow> Contract_or h self other)"

text \<open>\<^verbatim>\<open>ContractMeta.__or__\<close>: \<^verbatim>\<open>return cls() | other\<close>.\<close>

definition ContractMeta_or :: "store \<Rightarrow> cls \<Rightarrow> operand \<Rightarrow> exn + addr \<times> store" where
  "ContractMeta_or h k other =
     (case instantiate k of
        Inl e \<Rightarrow> Inl e
      | Inr c \<Rightarrow> or_instance (h @ [c]) (length h) other)"

text \<open>
  The expression \<^verbatim>\<open>self | o1 | o2 | ...\<close>, which Python reads as
  \<^verbatim>\<open>((self | o1) | o2) | ...\<close>.
\<close>

fun or_chain :: "store \<Rightarrow> addr \<Rightarrow> operand list \<Rightarrow> exn + addr \<times> store" where
  "or_chain h self [] = Inr (self, h)"
| "or_chain h self (other # others) =
     (case or_instance h self other of
        Inl e \<Rightarrow> Inl e
      | Inr (r, h') \<Rightarrow> or_chain h' r others)"

text \<open>The loop of \<^verbatim>\<open>DictC.allow_extra\<close> on the fields \<^verbatim>\<open>extras\<close> and \<^verbatim>\<open>allow_any\<close>.\<close>

fun allow_extra_loop :: "string list \<Rightarrow> string list \<times> bool \<Rightarrow> string list \<times> bool" where
  "allow_extra_loop [] (extras, allow_any) = (extras, allow_any)"
| "allow_extra_loop (name # names) (extras, allow_any) =
     (if name = ''*''
      then allow_extra_loop names (extras, True)
      else allow_extra_loop names (extras @ [name], allow_any))"

definition allow_extra :: "store \<Rightarrow> addr \<Rightarrow> string list \<Rightarrow> exn + addr \<times> store" where
  "allow_extra h self names =
     (case h ! self of
        DictC optionals extras allow_any contracts \<Rightarrow>
          (case allow_extra_loop names (extras, allow_any) of
             (extras', allow_any') \<Rightarrow>
               Inr (self, h[self := DictC optionals extras' allow_any' contracts]))
      | _ \<Rightarrow> Inl AttributeError)"

text \<open>
  The loop of \<^verbatim>\<open>DictC.allow_optionals\<close> on the field \<^verbatim>\<open>optionals\<close>;
  \<^verbatim>\<open>self.contracts.keys()\<close> is a new list in Python 2.
\<close>

fun allow_optionals_loop :: "string list \<Rightarrow> (string \<times> contract) list \<Rightarrow> string list \<Rightarrow> string list" where
  "allow_optionals_loop [] contracts optionals = optionals"
| "allow_optionals_loop (name # names) contracts optionals =
     (if name = ''*''
      then allow_optionals_loop names contracts (map fst contracts)
      else allow_optionals_loop names contracts (optionals @ [name]))"

definition allow_optionals :: "store \<Rightarrow> addr \<Rightarrow> string list \<Rightarrow> exn + addr \<times> store" where
  "allow_optionals h self names =
     (case h ! self of
        DictC optionals extras allow_any contracts \<Rightarrow>
          Inr (self,
               h[self := DictC (allow_optionals_loop names contracts optionals)
                           extras allow_any contracts])
      | _ \<Rightarrow> Inl AttributeError)"

text \<open>\<^verbatim>\<open>check\<close> called on the object at a reference.\<close>

definition check_at :: "store \<Rightarrow> addr \<Rightarrow> pyvalue \<Rightarrow> (exn + unit) \<times> store" where
  "check_at h self v = (case check (h ! self) v of (r, c') \<Rightarrow> (r, h[self := c']))"

text \<open>Whether an object is an instance of \<^verbatim>\<open>OrC\<close>.\<close>

fun is_OrC :: "contract \<Rightarrow> bool" where
  "is_OrC (OrC contracts) = True"
| "is_OrC c = False"

text \<open>An operand that is an instance refers to an object of the store.\<close>

fun valid_operand :: "store \<Rightarrow> operand \<Rightarrow> bool" where
  "valid_operand h (Instance a) = (a < length h)"
| "valid_operand h x = True"

section \<open>Notions of the specification, and functions for the instances\<close>

text \<open>
  The integral values of Python 2 with their integer value: the two integer types and the
  booleans (the instances of \<^verbatim>\<open>numbers.Integral\<close>). The specification speaks of
  ``an integral value''.
\<close>

fun integral_value :: "pyvalue \<Rightarrow> int option" where
  "integral_value (VInt n) = Some n"
| "integral_value (VLong n) = Some n"
| "integral_value (VBool b) = Some (if b then 1 else 0)"
| "integral_value v = None"

text \<open>
  The predicate of the doctest of \<^verbatim>\<open>CallC\<close>:
  \<^verbatim>\<open>def validator(value): if value != "foo": return "I want only foo!"\<close>.
\<close>

definition validator :: "pyvalue \<Rightarrow> exn + string option" where
  "validator v = Inr (if \<not> py_eq v (VStr ''foo'') then Some ''I want only foo!'' else None)"

text \<open>\<^verbatim>\<open>def blank_reply(value): return ""\<close>.\<close>

definition blank_reply :: "pyvalue \<Rightarrow> exn + string option" where
  "blank_reply v = Inr (Some [])"

text \<open>\<^verbatim>\<open>def accept_all(value=None): return None\<close>.\<close>

definition accept_all :: "pyvalue \<Rightarrow> exn + string option" where
  "accept_all v = Inr None"

text \<open>
  A wrapped function for the instances of the guard: it returns the arguments it was given,
  and counts its invocations in the state.
\<close>

definition fn_example ::
  "pyvalue list \<Rightarrow> (string \<times> pyvalue) list \<Rightarrow> nat \<Rightarrow> (exn + pyvalue) \<times> nat" where
  "fn_example args kwargs calls = (Inr (VList (args @ map snd kwargs)), Suc calls)"

section \<open>A check leaves its contract as it was\<close>

lemma or_loop_frame:
  assumes "\<And>c r c'. c \<in> set cs \<Longrightarrow> chk c = (r, c') \<Longrightarrow> c' = c"
  shows "snd (or_loop chk cs) = cs"
  using assms
proof (induction cs)
  case Nil
  then show ?case by simp
next
  case (Cons c cs)
  obtain r c' where chk: "chk c = (r, c')" by (cases "chk c")
  have c': "c' = c" using Cons.prems [of c r c'] chk by simp
  have "snd (or_loop chk cs) = cs"
    by (rule Cons.IH) (rule Cons.prems, simp_all)
  then show ?case
    using chk c' by (cases "or_loop chk cs") (simp split: sum.splits exn.splits)
qed

lemma list_loop_frame:
  assumes "\<And>c x r c'. x \<in> set xs \<Longrightarrow> chk c x = (r, c') \<Longrightarrow> c' = c"
  shows "snd (list_loop chk c xs) = c"
  using assms
proof (induction xs)
  case Nil
  then show ?case by simp
next
  case (Cons x xs)
  obtain r c' where chk: "chk c x = (r, c')" by (cases "chk c x")
  have c': "c' = c" using Cons.prems [of x c r c'] chk by simp
  have "snd (list_loop chk c xs) = c"
    by (rule Cons.IH) (rule Cons.prems, simp_all)
  then show ?case
    using chk c' by (simp split: sum.splits)
qed

lemma check_item_frame:
  assumes "\<And>c r c'. chk c (snd item) = (r, c') \<Longrightarrow> c' = c"
  shows "snd (check_item chk extras allow_any contracts item) = contracts"
proof (cases item)
  case (Pair key x)
  show ?thesis
  proof (cases "map_of contracts key")
    case None
    then show ?thesis using Pair by simp
  next
    case (Some c)
    obtain r c' where chk: "chk c x = (r, c')" by (cases "chk c x")
    have "c' = c" using assms [of c r c'] chk Pair by simp
    then show ?thesis using Pair Some chk by (simp add: update_triv)
  qed
qed

lemma check_items_frame:
  assumes "\<And>c item r c'. item \<in> set items \<Longrightarrow> chk c (snd item) = (r, c') \<Longrightarrow> c' = c"
  shows "snd (check_items chk extras allow_any contracts items) = contracts"
  using assms
proof (induction items)
  case Nil
  then show ?case by simp
next
  case (Cons item items)
  have "\<And>c r c'. chk c (snd item) = (r, c') \<Longrightarrow> c' = c"
    using Cons.prems [of item] by simp
  then have "snd (check_item chk extras allow_any contracts item) = contracts"
    by (rule check_item_frame)
  moreover have "snd (check_items chk extras allow_any contracts items) = contracts"
    by (rule Cons.IH) (rule Cons.prems, simp_all)
  ultimately show ?case
    by (cases "check_item chk extras allow_any contracts item") (simp split: sum.splits)
qed

lemma check_frame: "snd (check c v) = c"
proof (induction c v rule: check.induct)
  case (3 contracts v)
  have "snd (or_loop (\<lambda>c. check c v) contracts) = contracts"
    using 3 by (intro or_loop_frame) (metis snd_conv)
  then show ?case by (cases "or_loop (\<lambda>c. check c v) contracts") simp
next
  case (8 c min_length max_length v)
  show ?case
  proof (cases v)
    case (VList xs)
    show ?thesis
    proof (cases "int (length xs) < min_length
                  \<or> (max_length \<noteq> None \<and> int (length xs) > the max_length)")
      case True
      then show ?thesis using VList by auto
    next
      case False
      have "snd (list_loop check c xs) = c"
        using 8 VList False by (intro list_loop_frame) (metis snd_conv)
      then show ?thesis using VList False by (cases "list_loop check c xs") simp
    qed
  qed simp_all
next
  case (9 optionals extras allow_any contracts v)
  show ?case
  proof (cases v)
    case (VDict kvs)
    show ?thesis
    proof (cases "check_presence (map fst contracts) optionals kvs")
      case (Inl e)
      then show ?thesis using VDict by simp
    next
      case (Inr u)
      have "snd (check_items check extras allow_any contracts kvs) = contracts"
        using 9 VDict Inr by (intro check_items_frame) (metis snd_conv)
      then show ?thesis using VDict Inr
        by (cases "check_items check extras allow_any contracts kvs") simp
    qed
  qed simp_all
qed (simp_all split: pyvalue.splits)

lemma check_eq: "check c v = (outcome c v, c)"
  using check_frame [of c v] by (simp add: outcome_def prod_eq_iff)

section \<open>The alternatives of an OrC\<close>

lemma outcome_OrC_Nil: "outcome (OrC []) v = failure ''no one contract matches''"
  by (simp add: outcome_def)

lemma outcome_OrC_Cons:
  "outcome (OrC (c # cs)) v =
     (case outcome c v of
        Inr u \<Rightarrow> Inr ()
      | Inl (ContractValidationError m) \<Rightarrow> outcome (OrC cs) v
      | Inl e \<Rightarrow> Inl e)"
proof -
  obtain r cs' where loop: "or_loop (\<lambda>c. check c v) cs = (r, cs')"
    by (cases "or_loop (\<lambda>c. check c v) cs")
  then have rest: "outcome (OrC cs) v = r"
    by (simp add: outcome_def)
  obtain r0 where first: "check c v = (r0, c)" and r0: "outcome c v = r0"
    using check_eq [of c v] by simp
  show ?thesis
    unfolding rest r0
    by (simp add: outcome_def [of "OrC (c # cs)" v] first loop split: sum.splits exn.splits)
qed

lemma OrC_first_match:
  assumes "\<forall>d \<in> set pre. \<exists>m. outcome d v = Inl (ContractValidationError m)"
    and "outcome c v = Inr ()"
  shows "outcome (OrC (pre @ c # post)) v = Inr ()"
  using assms by (induction pre) (auto simp: outcome_OrC_Cons)

lemma OrC_no_match:
  assumes "\<forall>d \<in> set cs. \<exists>m. outcome d v = Inl (ContractValidationError m)"
  shows "outcome (OrC cs) v = Inl (ContractValidationError ''no one contract matches'')"
  using assms by (induction cs) (auto simp: outcome_OrC_Cons outcome_OrC_Nil failure_def)

lemma OrC_success_split:
  assumes "outcome (OrC cs) v = Inr ()"
  shows "\<exists>pre c post. cs = pre @ c # post
           \<and> (\<forall>d \<in> set pre. \<exists>m. outcome d v = Inl (ContractValidationError m))
           \<and> outcome c v = Inr ()"
  using assms
proof (induction cs)
  case Nil
  then show ?case by (simp add: outcome_OrC_Nil failure_def)
next
  case (Cons a cs)
  show ?case
  proof (cases "outcome a v")
    case (Inr u)
    then have "a # cs = [] @ a # cs
        \<and> (\<forall>d \<in> set []. \<exists>m. outcome d v = Inl (ContractValidationError m))
        \<and> outcome a v = Inr ()" by simp
    then show ?thesis by blast
  next
    case (Inl e)
    show ?thesis
    proof (cases e)
      case (ContractValidationError m)
      then have "outcome (OrC cs) v = Inr ()"
        using Cons.prems Inl by (simp add: outcome_OrC_Cons)
      then obtain pre c post where *: "cs = pre @ c # post"
        "\<forall>d \<in> set pre. \<exists>m. outcome d v = Inl (ContractValidationError m)"
        "outcome c v = Inr ()"
        using Cons.IH by blast
      have "a # cs = (a # pre) @ c # post
        \<and> (\<forall>d \<in> set (a # pre). \<exists>m. outcome d v = Inl (ContractValidationError m))
        \<and> outcome c v = Inr ()"
        using * Inl ContractValidationError by simp
      then show ?thesis by blast
    qed (use Cons.prems Inl in \<open>simp_all add: outcome_OrC_Cons\<close>)
  qed
qed

text \<open>
  C1, as amended. \<^verbatim>\<open>OrC.check\<close> tries the sub-contracts in declaration order. When the
  sub-contracts before \<open>c\<close> fail with a validation error and \<open>c\<close> accepts the value, the
  check succeeds, whatever the sub-contracts after \<open>c\<close> are (they are not tried: one that would
  raise changes nothing); a check that succeeds has such a first accepting sub-contract; and
  when every sub-contract fails with a validation error, the check fails with the one message
  \<^verbatim>\<open>no one contract matches\<close>, whatever the messages of the sub-contracts were.
\<close>

theorem OrC_check_first_match:
  "((\<forall>d \<in> set pre. \<exists>m. outcome d v = Inl (ContractValidationError m)) \<and> outcome c v = Inr ()
      \<longrightarrow> outcome (OrC (pre @ c # post)) v = Inr ())
   \<and> (outcome (OrC cs) v = Inr ()
      \<longrightarrow> (\<exists>pre c post. cs = pre @ c # post
            \<and> (\<forall>d \<in> set pre. \<exists>m. outcome d v = Inl (ContractValidationError m))
            \<and> outcome c v = Inr ()))
   \<and> ((\<forall>d \<in> set cs. \<exists>m. outcome d v = Inl (ContractValidationError m))
      \<longrightarrow> outcome (OrC cs) v = Inl (ContractValidationError ''no one contract matches''))"
  using OrC_first_match [of pre v c post] OrC_no_match [of cs v] OrC_success_split [of cs v]
  by blast

text \<open>
  An instance: \<^verbatim>\<open>OrC(NullC, IntC, Contract()).check(1)\<close> succeeds at its second
  sub-contract, although the third one would raise \<^verbatim>\<open>NotImplementedError\<close>;
  \<^verbatim>\<open>OrC(NullC, StringC).check(1)\<close> fails with the generic message.
\<close>

theorem OrC_check_first_match_witness:
  "outcome NullC (VInt 1) = Inl (ContractValidationError ''value should be None'')
   \<and> outcome (IntC None None) (VInt 1) = Inr ()
   \<and> outcome Contract (VInt 1) = Inl NotImplementedError
   \<and> outcome (OrC ([NullC] @ IntC None None # [Contract])) (VInt 1) = Inr ()
   \<and> outcome (StringC False) (VInt 1) = Inl (ContractValidationError ''value is not string'')
   \<and> outcome (OrC [NullC, StringC False]) (VInt 1)
       = Inl (ContractValidationError ''no one contract matches'')"
  using OrC_check_first_match
    [of "[NullC]" "VInt 1" "IntC None None" "[Contract]" "[NullC, StringC False]"]
  by (simp add: outcome_def failure_def)

text \<open>
  C1 as stated names the message \<^verbatim>\<open>no contract matches\<close>. The doctest of \<^verbatim>\<open>OrC\<close>,
  \<^verbatim>\<open>OrC(StringC, NullC).check(1)\<close>, and already \<^verbatim>\<open>OrC(NullC).check(1)\<close>, fail with
  another message.
\<close>

theorem OrC_check_message_counterexample:
  "outcome NullC (VInt 1) = Inl (ContractValidationError ''value should be None'')
   \<and> outcome (OrC [NullC]) (VInt 1) \<noteq> Inl (ContractValidationError ''no contract matches'')"
  by (simp add: outcome_def failure_def)

section \<open>The bounds of an IntC\<close>

lemma outcome_IntC:
  "outcome (IntC mn mx) v =
     (case int_instance v of
        None \<Rightarrow> failure ''value is not int''
      | Some n \<Rightarrow>
          if mn \<noteq> None \<and> n < the mn
          then failure (''value is less than '' @ str_int (the mn))
          else if mx \<noteq> None \<and> n > the mx
          then failure (''value is greater than '' @ str_int (the mx))
          else Inr ())"
  by (simp add: outcome_def)

text \<open>
  C4, as amended. \<^verbatim>\<open>IntC(min_=mn, max_=mx).check(v)\<close> succeeds if and only if \<open>v\<close> is an
  instance of \<^verbatim>\<open>int\<close> (a plain integer or a boolean, with value \<open>n\<close>) and \<open>n\<close> lies
  within the bounds, each of which is optional on its own and inclusive.
\<close>

theorem IntC_check_iff:
  "outcome (IntC mn mx) v = Inr ()
     \<longleftrightarrow> (\<exists>n. int_instance v = Some n
              \<and> (\<forall>lo. mn = Some lo \<longrightarrow> lo \<le> n)
              \<and> (\<forall>hi. mx = Some hi \<longrightarrow> n \<le> hi))"
  by (cases "int_instance v"; cases mn; cases mx) (auto simp: outcome_IntC failure_def)

text \<open>Instances: both bounds are inclusive, either may be absent, a string is rejected.\<close>

theorem IntC_check_iff_witness:
  "outcome (IntC (Some 1) (Some 10)) (VInt 1) = Inr ()
   \<and> outcome (IntC (Some 1) (Some 10)) (VInt 10) = Inr ()
   \<and> outcome (IntC (Some 1) (Some 10)) (VInt 11) \<noteq> Inr ()
   \<and> outcome (IntC (Some 1) (Some 10)) (VInt 0) \<noteq> Inr ()
   \<and> outcome (IntC None (Some 10)) (VInt (- 5)) = Inr ()
   \<and> outcome (IntC (Some 1) None) (VBool True) = Inr ()
   \<and> outcome (IntC None None) (VStr ''foo'') \<noteq> Inr ()"
  using IntC_check_iff [of "Some 1" "Some 10" "VInt 1"]
    IntC_check_iff [of "Some 1" "Some 10" "VInt 10"]
    IntC_check_iff [of "Some 1" "Some 10" "VInt 11"]
    IntC_check_iff [of "Some 1" "Some 10" "VInt 0"]
    IntC_check_iff [of None "Some 10" "VInt (- 5)"]
    IntC_check_iff [of "Some 1" None "VBool True"]
    IntC_check_iff [of None None "VStr ''foo''"]
  by simp

text \<open>
  C4 as stated accepts every integral value within the bounds. In Python 2
  \<^verbatim>\<open>isinstance(5L, int)\<close> is false: \<^verbatim>\<open>IntC().check(5L)\<close>, with no bound at all, fails.
\<close>

theorem IntC_check_long_counterexample:
  "integral_value (VLong 5) = Some 5
   \<and> outcome (IntC None None) (VLong 5) = Inl (ContractValidationError ''value is not int'')"
  by (simp add: outcome_def failure_def)

section \<open>The predicate of a CallC\<close>

lemma outcome_CallC:
  "outcome (CallC fn) v =
     (case fn v of
        Inl e \<Rightarrow> Inl e
      | Inr error \<Rightarrow> if error \<noteq> None then failure (the error) else Inr ())"
  by (simp add: outcome_def)

text \<open>
  C8, as amended. When the predicate returns, \<^verbatim>\<open>CallC.check\<close> succeeds exactly when it
  returned \<^verbatim>\<open>None\<close> and fails exactly when it returned a message, empty or not, which
  is the reason of the validation error. (An exception of the predicate propagates.)
\<close>

theorem CallC_check_reply:
  "(fn v = Inr reply \<longrightarrow>
      (outcome (CallC fn) v = Inr () \<longleftrightarrow> reply = None)
      \<and> (\<forall>m. outcome (CallC fn) v = Inl (ContractValidationError m) \<longleftrightarrow> reply = Some m))
   \<and> (fn v = Inl e \<longrightarrow> outcome (CallC fn) v = Inl e)"
  by (cases reply) (auto simp: outcome_CallC failure_def)

text \<open>The doctest: \<^verbatim>\<open>CallC(validator)\<close> accepts \<^verbatim>\<open>"foo"\<close> and rejects \<^verbatim>\<open>"bar"\<close>.\<close>

theorem CallC_check_reply_witness:
  "validator (VStr ''foo'') = Inr None
   \<and> outcome (CallC validator) (VStr ''foo'') = Inr ()
   \<and> validator (VStr ''bar'') = Inr (Some ''I want only foo!'')
   \<and> outcome (CallC validator) (VStr ''bar'') = Inl (ContractValidationError ''I want only foo!'')"
  using CallC_check_reply [of validator "VStr ''foo''" None]
    CallC_check_reply [of validator "VStr ''bar''" "Some ''I want only foo!''"]
  by (simp add: validator_def)

text \<open>
  C8 as stated lets the check fail for a non-empty message only. The test of the code is
  \<^verbatim>\<open>error is not None\<close>: a predicate that returns the empty string makes the check fail,
  with the empty reason.
\<close>

theorem CallC_check_blank_counterexample:
  "blank_reply VNone = Inr (Some '''')
   \<and> outcome (CallC blank_reply) VNone = Inl (ContractValidationError '''')"
  by (simp add: outcome_def failure_def blank_reply_def)

text \<open>
  C7, as amended. \<^verbatim>\<open>CallC.__init__\<close> raises \<^verbatim>\<open>RuntimeError\<close> when its argument is not
  callable and when it is a function with more than one required argument; it accepts a
  function with exactly one required argument, and a function whose only parameter has a
  default; it never raises a validation error.
\<close>

theorem CallC_init_config_error:
  "CallC_init NotCallable = Inl (RuntimeError ''CallC argument should be callable'')
   \<and> (required_args args ndefaults > 1 \<longrightarrow>
        CallC_init (PyFunction args ndefaults fn)
          = Inl (RuntimeError ''CallC argument should be one argument function''))
   \<and> (required_args args ndefaults = 1 \<longrightarrow>
        CallC_init (PyFunction args ndefaults fn) = Inr (CallC fn))
   \<and> (length args = 1 \<and> ndefaults = 1 \<longrightarrow>
        CallC_init (PyFunction args ndefaults fn) = Inr (CallC fn))
   \<and> CallC_init f \<noteq> Inl (ContractValidationError m)"
  by (cases f) (auto simp: required_args_def)

text \<open>
  Instances: \<^verbatim>\<open>def f(a, b)\<close> is refused; \<^verbatim>\<open>def validator(value)\<close>,
  \<^verbatim>\<open>def f(a, b=None)\<close> and \<^verbatim>\<open>def accept_all(value=None)\<close> are accepted.
\<close>

theorem CallC_init_config_error_witness:
  "required_args [''a'', ''b''] 0 = 2
   \<and> CallC_init (PyFunction [''a'', ''b''] 0 accept_all)
       = Inl (RuntimeError ''CallC argument should be one argument function'')
   \<and> required_args [''value''] 0 = 1
   \<and> CallC_init (PyFunction [''value''] 0 validator) = Inr (CallC validator)
   \<and> required_args [''a'', ''b''] 1 = 1
   \<and> CallC_init (PyFunction [''a'', ''b''] 1 validator) = Inr (CallC validator)
   \<and> CallC_init (PyFunction [''value''] 1 accept_all) = Inr (CallC accept_all)"
  using CallC_init_config_error [of "[''a'', ''b'']" 0 accept_all]
    CallC_init_config_error [of "[''value'']" 0 validator]
    CallC_init_config_error [of "[''a'', ''b'']" 1 validator]
    CallC_init_config_error [of "[''value'']" 1 accept_all]
  by (simp add: required_args_def)

text \<open>
  C7 as stated refuses every callable whose number of required arguments differs from one.
  \<^verbatim>\<open>def accept_all(value=None)\<close> has no required argument, and the constructor accepts it:
  the code subtracts the defaults and refuses only a count above one.
\<close>

theorem CallC_init_default_counterexample:
  "required_args [''value''] 1 = 0
   \<and> CallC_init (PyFunction [''value''] 1 accept_all) = Inr (CallC accept_all)"
  by (simp add: required_args_def)

section \<open>StringC and the rendering of small integers\<close>

lemma outcome_StringC:
  "outcome (StringC allow_blank) v =
     (case v of
        VStr s \<Rightarrow>
          if \<not> allow_blank \<and> length s = 0
          then failure ''blank value is not allowed''
          else Inr ()
      | _ \<Rightarrow> failure ''value is not string'')"
  by (simp add: outcome_def)

lemma str_int_simps: "str_int 1 = ''1''" "str_int 2 = ''2''" "str_int (- 120) = ''-120''"
  by (simp_all add: str_int_def str_nat.simps)

section \<open>The order of the checks of a ListC\<close>

lemma list_loop_Cons:
  "fst (list_loop check c (x # xs)) =
     (case outcome c x of Inl e \<Rightarrow> Inl e | Inr u \<Rightarrow> fst (list_loop check c xs))"
  by (simp add: check_eq [of c x] split: sum.splits)

lemma list_loop_first_failure:
  assumes "\<forall>y \<in> set pre. outcome c y = Inr ()" and "outcome c x = Inl e"
  shows "fst (list_loop check c (pre @ x # post)) = Inl e"
  using assms by (induction pre) (simp_all del: list_loop.simps(2) add: list_loop_Cons)

lemma list_loop_all_pass:
  assumes "\<forall>y \<in> set xs. outcome c y = Inr ()"
  shows "fst (list_loop check c xs) = Inr ()"
  using assms by (induction xs) (simp_all del: list_loop.simps(2) add: list_loop_Cons)

lemma outcome_ListC:
  "outcome (ListC c min_length max_length) v =
     (case v of
        VList xs \<Rightarrow>
          if int (length xs) < min_length
          then failure (''list length is less than '' @ str_int min_length)
          else if max_length \<noteq> None \<and> int (length xs) > the max_length
          then failure (''list length is greater than '' @ str_int (the max_length))
          else fst (list_loop check c xs)
      | _ \<Rightarrow> failure ''value is not list'')"
  by (simp add: outcome_def split: pyvalue.splits prod.splits)

text \<open>
  C5. \<^verbatim>\<open>ListC.check\<close> checks in a fixed order and fails at the first check that fails:
  a value that is no list fails as such; a list shorter than \<^verbatim>\<open>min_length\<close> fails with the
  length message, whatever \<^verbatim>\<open>max_length\<close> and the elements are; a list that is long enough
  and longer than a set \<^verbatim>\<open>max_length\<close> fails with the other length message, whatever the
  elements are; a list within the bounds is checked element by element, in order: when the
  elements before \<open>x\<close> pass and \<open>x\<close> fails with \<open>e\<close>, the check fails with \<open>e\<close>, whatever
  the later elements are; when all elements pass, the check succeeds.
\<close>

theorem ListC_check_order:
  "((\<forall>xs. v \<noteq> VList xs) \<longrightarrow>
      outcome (ListC c min_length max_length) v
        = Inl (ContractValidationError ''value is not list''))
   \<and> (int (length xs) < min_length \<longrightarrow>
      outcome (ListC c min_length max_length) (VList xs)
        = Inl (ContractValidationError (''list length is less than '' @ str_int min_length)))
   \<and> (\<not> int (length xs) < min_length \<and> max_length = Some m \<and> int (length xs) > m \<longrightarrow>
      outcome (ListC c min_length max_length) (VList xs)
        = Inl (ContractValidationError (''list length is greater than '' @ str_int m)))
   \<and> (\<not> int (length xs) < min_length \<and> (\<forall>m. max_length = Some m \<longrightarrow> \<not> int (length xs) > m) \<longrightarrow>
      (xs = pre @ x # post \<and> (\<forall>y \<in> set pre. outcome c y = Inr ()) \<and> outcome c x = Inl e \<longrightarrow>
         outcome (ListC c min_length max_length) (VList xs) = Inl e)
      \<and> ((\<forall>y \<in> set xs. outcome c y = Inr ()) \<longrightarrow>
         outcome (ListC c min_length max_length) (VList xs) = Inr ()))"
proof -
  have 1: "(\<forall>xs. v \<noteq> VList xs) \<longrightarrow>
      outcome (ListC c min_length max_length) v
        = Inl (ContractValidationError ''value is not list'')"
    by (cases v) (simp_all add: outcome_ListC failure_def)
  have 2: "int (length xs) < min_length \<longrightarrow>
      outcome (ListC c min_length max_length) (VList xs)
        = Inl (ContractValidationError (''list length is less than '' @ str_int min_length))"
    by (simp add: outcome_ListC failure_def)
  have 3: "\<not> int (length xs) < min_length \<and> max_length = Some m \<and> int (length xs) > m \<longrightarrow>
      outcome (ListC c min_length max_length) (VList xs)
        = Inl (ContractValidationError (''list length is greater than '' @ str_int m))"
    by (simp add: outcome_ListC failure_def)
  have loop: "outcome (ListC c min_length max_length) (VList xs) = fst (list_loop check c xs)"
    if "\<not> int (length xs) < min_length" "\<forall>m. max_length = Some m \<longrightarrow> \<not> int (length xs) > m"
    using that by (cases max_length) (simp_all add: outcome_ListC)
  have 4: "\<not> int (length xs) < min_length \<and> (\<forall>m. max_length = Some m \<longrightarrow> \<not> int (length xs) > m) \<longrightarrow>
      (xs = pre @ x # post \<and> (\<forall>y \<in> set pre. outcome c y = Inr ()) \<and> outcome c x = Inl e \<longrightarrow>
         outcome (ListC c min_length max_length) (VList xs) = Inl e)
      \<and> ((\<forall>y \<in> set xs. outcome c y = Inr ()) \<longrightarrow>
         outcome (ListC c min_length max_length) (VList xs) = Inr ())"
    using loop list_loop_first_failure [of pre c x e post] list_loop_all_pass [of xs c]
    by auto
  show ?thesis using 1 2 3 4 by blast
qed

text \<open>
  Instances, with the item contract \<^verbatim>\<open>IntC\<close>: a value that is no list; the empty list under
  \<^verbatim>\<open>min_length=1\<close>; a list that is too short and holds a string (the length is reported);
  a list that is too long and starts with a string (the length is reported);
  \<^verbatim>\<open>[1, "x"]\<close>, which fails with the message of \<^verbatim>\<open>IntC\<close>; \<^verbatim>\<open>[1, 2]\<close>, which passes.
\<close>

theorem ListC_check_order_witness:
  "outcome (ListC (IntC None None) 1 (Some 2)) (VInt 1)
     = Inl (ContractValidationError ''value is not list'')
   \<and> outcome (ListC (IntC None None) 1 (Some 2)) (VList [])
     = Inl (ContractValidationError ''list length is less than 1'')
   \<and> outcome (ListC (IntC None None) 2 (Some 2)) (VList [VStr ''x''])
     = Inl (ContractValidationError ''list length is less than 2'')
   \<and> outcome (ListC (IntC None None) 1 (Some 2)) (VList [VStr ''x'', VInt 2, VInt 3])
     = Inl (ContractValidationError ''list length is greater than 2'')
   \<and> outcome (IntC None None) (VInt 1) = Inr ()
   \<and> outcome (IntC None None) (VStr ''x'') = Inl (ContractValidationError ''value is not int'')
   \<and> outcome (ListC (IntC None None) 1 (Some 2)) (VList ([VInt 1] @ VStr ''x'' # []))
     = Inl (ContractValidationError ''value is not int'')
   \<and> outcome (ListC (IntC None None) 1 (Some 2)) (VList [VInt 1, VInt 2]) = Inr ()"
  using ListC_check_order [of "VInt 1" "IntC None None" 1 "Some 2" "[]" 2 "[]" "VInt 0" "[]" TypeError]
    ListC_check_order [of VNone "IntC None None" 2 "Some 2" "[VStr ''x'']" 2 "[]" "VInt 0" "[]" TypeError]
    ListC_check_order [of VNone "IntC None None" 1 "Some 2" "[VStr ''x'', VInt 2, VInt 3]" 2
      "[]" "VInt 0" "[]" TypeError]
    ListC_check_order [of VNone "IntC None None" 1 "Some 2" "[VInt 1] @ VStr ''x'' # []" 2
      "[VInt 1]" "VStr ''x''" "[]" "ContractValidationError ''value is not int''"]
    ListC_check_order [of VNone "IntC None None" 1 "Some 2" "[VInt 1, VInt 2]" 2
      "[]" "VInt 0" "[]" TypeError]
  by (simp add: str_int_simps outcome_IntC failure_def)

section \<open>The two passes of a DictC\<close>

lemma check_item_eq:
  "check_item check extras allow_any contracts (key, x) =
     (case map_of contracts key of
        Some c \<Rightarrow> outcome c x
      | None \<Rightarrow>
          if \<not> allow_any \<and> key \<notin> set extras
          then failure (key @ '' is not allowed key'')
          else Inr (),
      contracts)"
proof (cases "map_of contracts key")
  case None
  then show ?thesis by simp
next
  case (Some c)
  then show ?thesis by (simp add: check_eq [of c x] update_triv)
qed

lemma item_outcome_eq:
  "item_outcome extras allow_any contracts (key, x) =
     (case map_of contracts key of
        Some c \<Rightarrow> outcome c x
      | None \<Rightarrow>
          if \<not> allow_any \<and> key \<notin> set extras
          then failure (key @ '' is not allowed key'')
          else Inr ())"
  by (simp only: item_outcome_def check_item_eq fst_conv)

lemma check_item_snd: "snd (check_item check extras allow_any contracts item) = contracts"
  by (cases item) (simp only: check_item_eq snd_conv)

lemma check_items_Cons:
  "fst (check_items check extras allow_any contracts (item # items)) =
     (case item_outcome extras allow_any contracts item of
        Inl e \<Rightarrow> Inl e
      | Inr u \<Rightarrow> fst (check_items check extras allow_any contracts items))"
proof -
  obtain r where "check_item check extras allow_any contracts item = (r, contracts)"
    using check_item_snd [of extras allow_any contracts item]
    by (cases "check_item check extras allow_any contracts item") simp
  then show ?thesis
    by (simp add: item_outcome_def split: sum.splits)
qed

lemma check_items_first_failure:
  assumes "\<forall>i \<in> set pre. item_outcome extras allow_any contracts i = Inr ()"
    and "item_outcome extras allow_any contracts item = Inl e"
  shows "fst (check_items check extras allow_any contracts (pre @ item # post)) = Inl e"
  using assms by (induction pre) (simp_all del: check_items.simps(2) add: check_items_Cons)

lemma check_items_all_pass:
  assumes "\<forall>i \<in> set kvs. item_outcome extras allow_any contracts i = Inr ()"
  shows "fst (check_items check extras allow_any contracts kvs) = Inr ()"
  using assms by (induction kvs) (simp_all del: check_items.simps(2) add: check_items_Cons)

lemma check_presence_find:
  "check_presence keys optionals kvs =
     (case find (\<lambda>k. k \<notin> set optionals \<and> k \<notin> fst ` set kvs) keys of
        None \<Rightarrow> Inr ()
      | Some key \<Rightarrow> failure (key @ '' is required''))"
  by (induction keys) simp_all

lemma outcome_DictC:
  "outcome (DictC optionals extras allow_any contracts) (VDict kvs) =
     (case check_presence (map fst contracts) optionals kvs of
        Inl e \<Rightarrow> Inl e
      | Inr u \<Rightarrow> fst (check_items check extras allow_any contracts kvs))"
  by (simp add: outcome_def split: sum.splits prod.splits)

text \<open>
  C2. \<^verbatim>\<open>DictC.check\<close> on a mapping runs two passes, in this order. First the presence
  pass: when \<open>key\<close> is the first declared key (in the enumeration order of the declared keys)
  that is neither optional nor in the value, the check fails with \<^verbatim>\<open><key> is required\<close>,
  whatever the items of the value are. Only when no such key exists the items are checked, in
  the enumeration order of the value: the check fails with the failure of the first item that
  fails and succeeds when every item passes. An item whose key is declared is checked with
  the contract declared for the key; an item whose key is not declared fails with
  \<^verbatim>\<open><key> is not allowed key\<close> unless the key is listed in \<^verbatim>\<open>extras\<close> or
  \<^verbatim>\<open>allow_any\<close> is set, and then it passes whatever its value is: no contract is run on it.
\<close>

theorem DictC_check_two_passes:
  "(find (\<lambda>k. k \<notin> set optionals \<and> k \<notin> fst ` set kvs) (map fst contracts) = Some key \<longrightarrow>
      outcome (DictC optionals extras allow_any contracts) (VDict kvs)
        = Inl (ContractValidationError (key @ '' is required'')))
   \<and> (find (\<lambda>k. k \<notin> set optionals \<and> k \<notin> fst ` set kvs) (map fst contracts) = None \<longrightarrow>
      (kvs = pre @ item # post
         \<and> (\<forall>i \<in> set pre. item_outcome extras allow_any contracts i = Inr ())
         \<and> item_outcome extras allow_any contracts item = Inl e \<longrightarrow>
       outcome (DictC optionals extras allow_any contracts) (VDict kvs) = Inl e)
      \<and> ((\<forall>i \<in> set kvs. item_outcome extras allow_any contracts i = Inr ()) \<longrightarrow>
       outcome (DictC optionals extras allow_any contracts) (VDict kvs) = Inr ()))
   \<and> (map_of contracts k = Some c \<longrightarrow>
      item_outcome extras allow_any contracts (k, x) = outcome c x)
   \<and> (map_of contracts k = None \<and> \<not> allow_any \<and> k \<notin> set extras \<longrightarrow>
      item_outcome extras allow_any contracts (k, x)
        = Inl (ContractValidationError (k @ '' is not allowed key'')))
   \<and> (map_of contracts k = None \<and> (allow_any \<or> k \<in> set extras) \<longrightarrow>
      item_outcome extras allow_any contracts (k, x) = Inr ())"
proof -
  let ?d = "DictC optionals extras allow_any contracts"
  let ?missing = "find (\<lambda>k. k \<notin> set optionals \<and> k \<notin> fst ` set kvs) (map fst contracts)"
  have 1: "?missing = Some key \<longrightarrow>
      outcome ?d (VDict kvs) = Inl (ContractValidationError (key @ '' is required''))"
    by (simp add: outcome_DictC check_presence_find failure_def)
  have items: "outcome ?d (VDict kvs) = fst (check_items check extras allow_any contracts kvs)"
    if "?missing = None"
    using that by (simp add: outcome_DictC check_presence_find)
  have 2: "?missing = None \<longrightarrow>
      (kvs = pre @ item # post
         \<and> (\<forall>i \<in> set pre. item_outcome extras allow_any contracts i = Inr ())
         \<and> item_outcome extras allow_any contracts item = Inl e \<longrightarrow>
       outcome ?d (VDict kvs) = Inl e)
      \<and> ((\<forall>i \<in> set kvs. item_outcome extras allow_any contracts i = Inr ()) \<longrightarrow>
       outcome ?d (VDict kvs) = Inr ())"
    using items check_items_first_failure [of pre extras allow_any contracts item e post]
      check_items_all_pass [of kvs extras allow_any contracts]
    by auto
  have 3: "map_of contracts k = Some c \<longrightarrow>
      item_outcome extras allow_any contracts (k, x) = outcome c x"
    by (simp add: item_outcome_eq)
  have 4: "map_of contracts k = None \<and> \<not> allow_any \<and> k \<notin> set extras \<longrightarrow>
      item_outcome extras allow_any contracts (k, x)
        = Inl (ContractValidationError (k @ '' is not allowed key''))"
    by (simp add: item_outcome_eq failure_def)
  have 5: "map_of contracts k = None \<and> (allow_any \<or> k \<in> set extras) \<longrightarrow>
      item_outcome extras allow_any contracts (k, x) = Inr ()"
    by (auto simp: item_outcome_eq)
  show ?thesis using 1 2 3 4 5 by blast
qed

text \<open>
  Instances, with \<^verbatim>\<open>DictC(foo=IntC, bar=StringC)\<close>: \<^verbatim>\<open>{"foo": 1}\<close> lacks \<^verbatim>\<open>bar\<close>;
  \<^verbatim>\<open>{"eggs": None}\<close> fails in the presence pass, before its undeclared key is looked at;
  \<^verbatim>\<open>{"foo": 1, "bar": "spam", "eggs": None}\<close> fails at \<^verbatim>\<open>eggs\<close>, and passes once
  \<^verbatim>\<open>eggs\<close> is an extra, with any value under \<^verbatim>\<open>eggs\<close>; \<^verbatim>\<open>{"foo": 1, "bar": 2}\<close>
  fails with the message of \<^verbatim>\<open>StringC\<close>.
\<close>

theorem DictC_check_two_passes_witness:
  "outcome (DictC [] [] False [(''foo'', IntC None None), (''bar'', StringC False)])
      (VDict [(''foo'', VInt 1)])
     = Inl (ContractValidationError ''bar is required'')
   \<and> outcome (DictC [] [] False [(''foo'', IntC None None), (''bar'', StringC False)])
      (VDict [(''eggs'', VNone)])
     = Inl (ContractValidationError ''foo is required'')
   \<and> item_outcome [] False [(''foo'', IntC None None), (''bar'', StringC False)] (''eggs'', VNone)
     = Inl (ContractValidationError ''eggs is not allowed key'')
   \<and> outcome (DictC [] [] False [(''foo'', IntC None None), (''bar'', StringC False)])
      (VDict ([(''foo'', VInt 1), (''bar'', VStr ''spam'')] @ (''eggs'', VNone) # []))
     = Inl (ContractValidationError ''eggs is not allowed key'')
   \<and> item_outcome [''eggs''] False [(''foo'', IntC None None), (''bar'', StringC False)]
      (''eggs'', VObject 7) = Inr ()
   \<and> outcome (DictC [] [''eggs''] False [(''foo'', IntC None None), (''bar'', StringC False)])
      (VDict [(''foo'', VInt 1), (''bar'', VStr ''spam''), (''eggs'', VObject 7)])
     = Inr ()
   \<and> item_outcome [] False [(''foo'', IntC None None), (''bar'', StringC False)] (''bar'', VInt 2)
     = Inl (ContractValidationError ''value is not string'')
   \<and> outcome (DictC [] [] False [(''foo'', IntC None None), (''bar'', StringC False)])
      (VDict ([(''foo'', VInt 1)] @ (''bar'', VInt 2) # []))
     = Inl (ContractValidationError ''value is not string'')"
  using DictC_check_two_passes
      [where optionals = "[]" and extras = "[]" and allow_any = False
         and contracts = "[(''foo'', IntC None None), (''bar'', StringC False)]"
         and kvs = "[(''foo'', VInt 1)]" and key = "''bar''"
         and k = "''eggs''" and x = VNone]
    DictC_check_two_passes
      [where optionals = "[]" and extras = "[]" and allow_any = False
         and contracts = "[(''foo'', IntC None None), (''bar'', StringC False)]"
         and kvs = "[(''eggs'', VNone)]" and key = "''foo''"
         and k = "''bar''" and x = "VInt 2" and c = "StringC False"]
    DictC_check_two_passes
      [where optionals = "[]" and extras = "[]" and allow_any = False
         and contracts = "[(''foo'', IntC None None), (''bar'', StringC False)]"
         and kvs = "[(''foo'', VInt 1), (''bar'', VStr ''spam'')] @ (''eggs'', VNone) # []"
         and pre = "[(''foo'', VInt 1), (''bar'', VStr ''spam'')]"
         and item = "(''eggs'', VNone)" and post = "[]"
         and e = "ContractValidationError ''eggs is not allowed key''"]
    DictC_check_two_passes
      [where optionals = "[]" and extras = "[''eggs'']" and allow_any = False
         and contracts = "[(''foo'', IntC None None), (''bar'', StringC False)]"
         and kvs = "[(''foo'', VInt 1), (''bar'', VStr ''spam''), (''eggs'', VObject 7)]"
         and k = "''eggs''" and x = "VObject 7"]
    DictC_check_two_passes
      [where optionals = "[]" and extras = "[]" and allow_any = False
         and contracts = "[(''foo'', IntC None None), (''bar'', StringC False)]"
         and kvs = "[(''foo'', VInt 1)] @ (''bar'', VInt 2) # []"
         and pre = "[(''foo'', VInt 1)]"
         and item = "(''bar'', VInt 2)" and post = "[]"
         and e = "ContractValidationError ''value is not string''"]
  by (simp add: item_outcome_eq outcome_IntC outcome_StringC failure_def)

section \<open>The guard checks the supplied arguments first\<close>

lemma check_args_first_violation:
  assumes "\<forall>(n, w) \<in> set pre. \<forall>d. contracts n = Some d \<longrightarrow> outcome d w = Inr ()"
    and "contracts argname = Some c" and "outcome c v = Inl e"
  shows "check_args contracts (pre @ (argname, v) # post) = Inl e"
  using assms
proof (induction pre)
  case Nil
  then show ?case by simp
next
  case (Cons p pre)
  obtain n w where p: "p = (n, w)" by (cases p)
  have "check_args contracts (pre @ (argname, v) # post) = Inl e"
    using Cons by simp
  then show ?case
    using Cons.prems(1) p by (cases "contracts n") (simp_all split: sum.splits)
qed

lemma check_args_filter:
  "check_args contracts (filter (\<lambda>p. contracts (fst p) \<noteq> None) supplied)
     = check_args contracts supplied"
proof (induction supplied)
  case Nil
  then show ?case by simp
next
  case (Cons p supplied)
  obtain n w where p: "p = (n, w)" by (cases p)
  show ?case
    using Cons p by (cases "contracts n") (simp_all split: sum.splits)
qed

lemma check_args_cong:
  assumes "\<forall>n \<in> fst ` set supplied. f n = g n"
  shows "check_args f supplied = check_args g supplied"
  using assms
proof (induction supplied)
  case Nil
  then show ?case by simp
next
  case (Cons p supplied)
  obtain n w where p: "p = (n, w)" by (cases p)
  have "f n = g n" using Cons.prems p by simp
  moreover have "check_args f supplied = check_args g supplied"
    by (rule Cons.IH) (use Cons.prems in simp)
  ultimately show ?case
    using p by (auto split: option.splits sum.splits)
qed

lemma check_args_not_supplied:
  assumes "argname \<notin> fst ` set supplied"
  shows "check_args (contracts(argname := c')) supplied = check_args contracts supplied"
  by (rule check_args_cong) (use assms in auto)

lemma check_args_some_violation:
  assumes "(argname, v) \<in> set supplied" "contracts argname = Some c"
    and "outcome c v = Inl (ContractValidationError m)"
    and "\<forall>(n, w) \<in> set supplied. \<forall>d. contracts n = Some d \<longrightarrow>
           outcome d w = Inr () \<or> (\<exists>m'. outcome d w = Inl (ContractValidationError m'))"
  shows "\<exists>n w d m'. (n, w) \<in> set supplied \<and> contracts n = Some d
           \<and> outcome d w = Inl (ContractValidationError m')
           \<and> check_args contracts supplied = Inl (ContractValidationError m')"
  using assms
proof (induction supplied)
  case Nil
  then show ?case by simp
next
  case (Cons p supplied)
  obtain n w where p: "p = (n, w)" by (cases p)
  show ?case
  proof (cases "\<exists>d m'. contracts n = Some d \<and> outcome d w = Inl (ContractValidationError m')")
    case True
    then obtain d m' where d: "contracts n = Some d" "outcome d w = Inl (ContractValidationError m')"
      by blast
    then have "check_args contracts (p # supplied) = Inl (ContractValidationError m')"
      using p by simp
    then show ?thesis using d p by auto
  next
    case False
    then have pass: "\<forall>d. contracts n = Some d \<longrightarrow> outcome d w = Inr ()"
      using Cons.prems(4) p by auto
    then have skip: "check_args contracts (p # supplied) = check_args contracts supplied"
      using p by (cases "contracts n") simp_all
    have "(argname, v) \<noteq> p"
      using pass Cons.prems(2,3) p by auto
    then have "(argname, v) \<in> set supplied" using Cons.prems(1) by simp
    then obtain n' w' d' m' where "(n', w') \<in> set supplied" "contracts n' = Some d'"
      "outcome d' w' = Inl (ContractValidationError m')"
      "check_args contracts supplied = Inl (ContractValidationError m')"
      using Cons.IH Cons.prems(2,3,4) by auto
    then show ?thesis using skip by auto
  qed
qed

text \<open>
  C3, as amended. Let the supplied arguments be the positional arguments paired with the
  parameter names, followed by the keyword arguments. When a supplied argument violates its
  contract and the supplied arguments before it pass theirs, \<^verbatim>\<open>decor\<close> raises
  \<^verbatim>\<open>GuardValidationError\<close> with the message of the validation error, and the wrapped
  function is not invoked: the result is the same for every \<open>fn\<close>, and the state \<open>fn\<close>
  runs in is as it was. So whenever some supplied argument violates its contract, and no check
  of a supplied argument raises anything but a validation error, the guard raises
  \<^verbatim>\<open>GuardValidationError\<close> with the message of a violated contract. Arguments of
  parameters without a contract are not checked: dropping them from the supplied arguments
  changes nothing in the checks. A parameter that is not supplied in the call is not checked:
  whatever contract it has, the call does the same.
\<close>

theorem decor_guard_violation:
  "(zip argspec_args args @ kwargs = pre @ (argname, v) # post
      \<and> (\<forall>(n, w) \<in> set pre. \<forall>d. contracts n = Some d \<longrightarrow> outcome d w = Inr ())
      \<and> contracts argname = Some c \<and> outcome c v = Inl (ContractValidationError m) \<longrightarrow>
    decor contracts argspec_args fn args kwargs s = (Inl (GuardValidationError m), s))
   \<and> ((argname, v) \<in> set (zip argspec_args args @ kwargs)
      \<and> contracts argname = Some c \<and> outcome c v = Inl (ContractValidationError m)
      \<and> (\<forall>(n, w) \<in> set (zip argspec_args args @ kwargs). \<forall>d. contracts n = Some d \<longrightarrow>
           outcome d w = Inr () \<or> (\<exists>m'. outcome d w = Inl (ContractValidationError m'))) \<longrightarrow>
    (\<exists>n w d m'. (n, w) \<in> set (zip argspec_args args @ kwargs) \<and> contracts n = Some d
       \<and> outcome d w = Inl (ContractValidationError m')
       \<and> decor contracts argspec_args fn args kwargs s = (Inl (GuardValidationError m'), s)))
   \<and> check_args contracts (filter (\<lambda>p. contracts (fst p) \<noteq> None) (zip argspec_args args @ kwargs))
       = check_args contracts (zip argspec_args args @ kwargs)
   \<and> (argname \<notin> fst ` set (zip argspec_args args @ kwargs) \<longrightarrow>
      decor (contracts(argname := c')) argspec_args fn args kwargs s
        = decor contracts argspec_args fn args kwargs s)"
proof -
  let ?supplied = "zip argspec_args args @ kwargs"
  have 1: "?supplied = pre @ (argname, v) # post
      \<and> (\<forall>(n, w) \<in> set pre. \<forall>d. contracts n = Some d \<longrightarrow> outcome d w = Inr ())
      \<and> contracts argname = Some c \<and> outcome c v = Inl (ContractValidationError m) \<longrightarrow>
    decor contracts argspec_args fn args kwargs s = (Inl (GuardValidationError m), s)"
    using check_args_first_violation [of pre contracts argname c v "ContractValidationError m" post]
    by (simp add: decor_def)
  have 2: "(argname, v) \<in> set ?supplied
      \<and> contracts argname = Some c \<and> outcome c v = Inl (ContractValidationError m)
      \<and> (\<forall>(n, w) \<in> set ?supplied. \<forall>d. contracts n = Some d \<longrightarrow>
           outcome d w = Inr () \<or> (\<exists>m'. outcome d w = Inl (ContractValidationError m'))) \<longrightarrow>
    (\<exists>n w d m'. (n, w) \<in> set ?supplied \<and> contracts n = Some d
       \<and> outcome d w = Inl (ContractValidationError m')
       \<and> decor contracts argspec_args fn args kwargs s = (Inl (GuardValidationError m'), s))"
  proof (intro impI, elim conjE)
    assume "(argname, v) \<in> set ?supplied" "contracts argname = Some c"
      "outcome c v = Inl (ContractValidationError m)"
      "\<forall>(n, w) \<in> set ?supplied. \<forall>d. contracts n = Some d \<longrightarrow>
           outcome d w = Inr () \<or> (\<exists>m'. outcome d w = Inl (ContractValidationError m'))"
    then obtain n w d m' where *: "(n, w) \<in> set ?supplied" "contracts n = Some d"
      "outcome d w = Inl (ContractValidationError m')"
      "check_args contracts ?supplied = Inl (ContractValidationError m')"
      using check_args_some_violation [of argname v ?supplied contracts c m] by blast
    then have "decor contracts argspec_args fn args kwargs s = (Inl (GuardValidationError m'), s)"
      by (simp add: decor_def)
    then show "\<exists>n w d m'. (n, w) \<in> set ?supplied \<and> contracts n = Some d
       \<and> outcome d w = Inl (ContractValidationError m')
       \<and> decor contracts argspec_args fn args kwargs s = (Inl (GuardValidationError m'), s)"
      using * by blast
  qed
  have 3: "check_args contracts (filter (\<lambda>p. contracts (fst p) \<noteq> None) ?supplied)
       = check_args contracts ?supplied"
    by (rule check_args_filter)
  have 4: "argname \<notin> fst ` set ?supplied \<longrightarrow>
      decor (contracts(argname := c')) argspec_args fn args kwargs s
        = decor contracts argspec_args fn args kwargs s"
    using check_args_not_supplied [of argname ?supplied contracts c']
    by (simp add: decor_def)
  show ?thesis using 1 2 3 4 by blast
qed

text \<open>
  The doctests of \<^verbatim>\<open>guard\<close>, for a function \<^verbatim>\<open>fn(a, b, c=None)\<close>: under
  \<^verbatim>\<open>guard(a=StringC)\<close>, \<^verbatim>\<open>fn(1, "bar")\<close> raises and \<^verbatim>\<open>fn\<close> is not invoked, while
  \<^verbatim>\<open>fn("foo", "bar")\<close> invokes it; under \<^verbatim>\<open>guard(c=IntC)\<close>, \<^verbatim>\<open>fn(1, 2)\<close> invokes it
  although the default of \<^verbatim>\<open>c\<close> is no integer, and \<^verbatim>\<open>fn(1, 2, c="foo")\<close> raises.
\<close>

theorem decor_guard_violation_witness:
  "outcome (StringC False) (VInt 1) = Inl (ContractValidationError ''value is not string'')
   \<and> decor [''a'' \<mapsto> StringC False] [''a'', ''b'', ''c''] fn_example
        [VInt 1, VStr ''bar''] [] 0
      = (Inl (GuardValidationError ''value is not string''), 0)
   \<and> decor [''a'' \<mapsto> StringC False] [''a'', ''b'', ''c''] fn_example
        [VStr ''foo'', VStr ''bar''] [] 0
      = (Inr (VList [VStr ''foo'', VStr ''bar'']), 1)
   \<and> outcome (IntC None None) VNone = Inl (ContractValidationError ''value is not int'')
   \<and> decor [''c'' \<mapsto> IntC None None] [''a'', ''b'', ''c''] fn_example
        [VInt 1, VInt 2] [] 0
      = (Inr (VList [VInt 1, VInt 2]), 1)
   \<and> decor [''c'' \<mapsto> IntC None None] [''a'', ''b'', ''c''] fn_example
        [VInt 1, VInt 2] [(''c'', VStr ''foo'')] 0
      = (Inl (GuardValidationError ''value is not int''), 0)"
  using decor_guard_violation
      [where contracts = "[''a'' \<mapsto> StringC False]" and argspec_args = "[''a'', ''b'', ''c'']"
         and fn = fn_example and args = "[VInt 1, VStr ''bar'']" and kwargs = "[]" and s = 0
         and pre = "[]" and argname = "''a''" and v = "VInt 1" and post = "[(''b'', VStr ''bar'')]"
         and c = "StringC False" and m = "''value is not string''" and c' = None]
    decor_guard_violation
      [where contracts = "Map.empty" and argspec_args = "[''a'', ''b'', ''c'']"
         and fn = fn_example and args = "[VInt 1, VInt 2]" and kwargs = "[]" and s = 0
         and argname = "''c''" and c' = "Some (IntC None None)"]
    decor_guard_violation
      [where contracts = "[''c'' \<mapsto> IntC None None]" and argspec_args = "[''a'', ''b'', ''c'']"
         and fn = fn_example and args = "[VInt 1, VInt 2]" and kwargs = "[(''c'', VStr ''foo'')]"
         and s = 0 and pre = "[(''a'', VInt 1), (''b'', VInt 2)]" and argname = "''c''"
         and v = "VStr ''foo''" and post = "[]"
         and c = "IntC None None" and m = "''value is not int''" and c' = None]
  by (simp add: decor_def fn_example_def outcome_def failure_def)

text \<open>
  C3 as stated lets every call with a violating argument end in
  \<^verbatim>\<open>GuardValidationError\<close>. \<^verbatim>\<open>decor\<close> catches \<^verbatim>\<open>ContractValidationError\<close> only:
  under \<^verbatim>\<open>guard(a=Contract(), b=StringC)\<close> the call \<^verbatim>\<open>fn(1, 1)\<close> violates the contract
  of \<^verbatim>\<open>b\<close>, and raises the \<^verbatim>\<open>NotImplementedError\<close> of the check of \<^verbatim>\<open>a\<close>, which is
  made first.
\<close>

theorem decor_foreign_exception_counterexample:
  "outcome (StringC False) (VInt 1) = Inl (ContractValidationError ''value is not string'')
   \<and> decor [''a'' \<mapsto> Contract, ''b'' \<mapsto> StringC False] [''a'', ''b''] fn_example
        [VInt 1, VInt 1] [] 0
      = (Inl NotImplementedError, 0)"
  by (simp add: decor_def outcome_def failure_def)

section \<open>The operator of composition\<close>

lemma as_contract_append:
  "valid_operand h x \<Longrightarrow> as_contract (h @ h') x = as_contract h x"
  by (cases x) (simp_all add: nth_append)

lemma as_contracts_append:
  "\<forall>x \<in> set xs. valid_operand h x \<Longrightarrow> as_contracts (h @ h') xs = as_contracts h xs"
  by (induction xs) (auto simp: as_contract_append split: sum.splits)

lemma as_contract_update:
  "x \<noteq> Instance r \<Longrightarrow> as_contract (h[r := c]) x = as_contract h x"
  by (cases x) simp_all

lemma as_contracts_update:
  "\<forall>x \<in> set xs. x \<noteq> Instance r \<Longrightarrow> as_contracts (h[r := c]) xs = as_contracts h xs"
  by (induction xs) (auto simp: as_contract_update split: sum.splits)

lemma or_instance_other:
  assumes "\<not> is_OrC (h ! a)" and "as_contract h other = Inr c"
  shows "or_instance h a other = Inr (length h, h @ [OrC [h ! a, c]])"
  using assms
  by (cases "h ! a") (simp_all add: or_instance_def Contract_or_def OrC_init_def)

lemma or_instance_OrC:
  assumes "h ! a = OrC cs" and "as_contract h other = Inr c"
  shows "or_instance h a other = Inr (a, h[a := OrC (cs @ [c])])"
  using assms by (simp add: or_instance_def OrC_or_def OrC_lshift_def)

lemma or_chain_OrC:
  assumes "r < length h" and "h ! r = OrC cs0" and "\<forall>x \<in> set others. x \<noteq> Instance r"
    and "as_contracts h others = Inr cs"
  shows "or_chain h r others = Inr (r, h[r := OrC (cs0 @ cs)])"
  using assms
proof (induction others arbitrary: h cs0 cs)
  case Nil
  then show ?case using list_update_id [of h r] by simp
next
  case (Cons other others)
  from Cons.prems(4) obtain c cs' where c: "as_contract h other = Inr c"
    and cs': "as_contracts h others = Inr cs'" and cs: "cs = c # cs'"
    by (auto split: sum.splits)
  let ?h = "h[r := OrC (cs0 @ [c])]"
  have step: "or_instance h r other = Inr (r, ?h)"
    using Cons.prems(2) c by (rule or_instance_OrC)
  have "as_contracts ?h others = Inr cs'"
    using Cons.prems(3) cs' by (simp add: as_contracts_update)
  then have "or_chain ?h r others = Inr (r, ?h[r := OrC ((cs0 @ [c]) @ cs')])"
    using Cons.prems(1,3) by (intro Cons.IH) simp_all
  then show ?case using step cs by simp
qed

lemma or_chain_flat:
  assumes "a < length h" and "\<not> is_OrC (h ! a)"
    and "\<forall>x \<in> set (other # others). valid_operand h x"
    and "as_contracts h (other # others) = Inr cs"
  shows "or_chain h a (other # others) = Inr (length h, h @ [OrC (h ! a # cs)])"
proof -
  from assms(4) obtain c cs' where c: "as_contract h other = Inr c"
    and cs': "as_contracts h others = Inr cs'" and cs: "cs = c # cs'"
    by (auto split: sum.splits)
  let ?h = "h @ [OrC [h ! a, c]]"
  have step: "or_instance h a other = Inr (length h, ?h)"
    using assms(2) c by (rule or_instance_other)
  have ne: "\<forall>x \<in> set others. x \<noteq> Instance (length h)"
    using assms(3) by auto
  have "as_contracts ?h others = Inr cs'"
    using assms(3) cs' by (simp add: as_contracts_append)
  then have "or_chain ?h (length h) others = Inr (length h, ?h[length h := OrC ([h ! a, c] @ cs')])"
    using ne by (intro or_chain_OrC) simp_all
  then show ?thesis using step cs by simp
qed

lemma ContractMeta_or_other:
  assumes "instantiate k = Inr c0" and "\<not> is_OrC c0" and "valid_operand h other"
    and "as_contract h other = Inr c"
  shows "ContractMeta_or h k other = Inr (Suc (length h), h @ [c0, OrC [c0, c]])"
proof -
  have "as_contract (h @ [c0]) other = Inr c"
    using assms(3,4) by (simp add: as_contract_append)
  then have "or_instance (h @ [c0]) (length h) other
      = Inr (length (h @ [c0]), (h @ [c0]) @ [OrC [(h @ [c0]) ! length h, c]])"
    using assms(2) by (intro or_instance_other) simp_all
  then show ?thesis using assms(1) by (simp add: ContractMeta_or_def)
qed

text \<open>
  C6, as amended. For an instance \<open>a\<close> that is no \<^verbatim>\<open>OrC\<close>, \<^verbatim>\<open>a | other\<close> is a new
  object (at a reference that was free, every object of the store being left as it was): the
  \<^verbatim>\<open>OrC\<close> of the two contracts, \<open>other\<close> being a contract instance or a contract class.
  The same holds for a contract class on the left (a class whose constructor needs no
  argument): the class is instantiated first. For an instance \<open>a\<close> that is an \<^verbatim>\<open>OrC\<close>,
  \<^verbatim>\<open>a | other\<close> (for another operand than \<open>a\<close> itself) is \<open>a\<close> itself, with the
  contract appended, as one alternative, to its alternatives. So \<^verbatim>\<open>a | o1 | ... | on\<close>, for \<open>a\<close> no \<^verbatim>\<open>OrC\<close>, is one \<^verbatim>\<open>OrC\<close> whose
  alternatives are \<open>a\<close> and the operands, in this order: no \<^verbatim>\<open>OrC\<close> is made around the
  \<^verbatim>\<open>OrC\<close> of an earlier step, and the result is flat when no operand is an \<^verbatim>\<open>OrC\<close>
  itself.
\<close>

theorem or_composition_flat:
  "(a < length h \<and> \<not> is_OrC (h ! a) \<and> as_contract h other = Inr c \<longrightarrow>
      or_instance h a other = Inr (length h, h @ [OrC [h ! a, c]]))
   \<and> (instantiate k = Inr c0 \<and> \<not> is_OrC c0 \<and> valid_operand h other
        \<and> as_contract h other = Inr c \<longrightarrow>
      ContractMeta_or h k other = Inr (Suc (length h), h @ [c0, OrC [c0, c]]))
   \<and> (a < length h \<and> h ! a = OrC alternatives \<and> other \<noteq> Instance a
        \<and> as_contract h other = Inr c \<longrightarrow>
      or_instance h a other = Inr (a, h[a := OrC (alternatives @ [c])]))
   \<and> (a < length h \<and> \<not> is_OrC (h ! a) \<and> (\<forall>x \<in> set (other # others). valid_operand h x)
        \<and> as_contracts h (other # others) = Inr cs \<longrightarrow>
      or_chain h a (other # others) = Inr (length h, h @ [OrC (h ! a # cs)]))"
  using or_instance_other [of h a other c] ContractMeta_or_other [of k c0 h other c]
    or_instance_OrC [of h a alternatives other c] or_chain_flat [of a h other others cs]
  by blast

text \<open>
  Instances: \<^verbatim>\<open>IntC() | StringC()\<close> for two objects of the store; \<^verbatim>\<open>IntC | StringC\<close>
  for two classes; an existing \<^verbatim>\<open>OrC(IntC, StringC)\<close> composed with \<^verbatim>\<open>NullC\<close>; and
  \<^verbatim>\<open>IntC() | StringC | NullC | AnyC\<close>.
\<close>

theorem or_composition_flat_witness:
  "or_instance [IntC None None, StringC False] 0 (Instance 1)
     = Inr (2, [IntC None None, StringC False, OrC [IntC None None, StringC False]])
   \<and> ContractMeta_or [] IntCCls (Class StringCCls)
     = Inr (1, [IntC None None, OrC [IntC None None, StringC False]])
   \<and> or_instance [IntC None None, OrC [IntC None None, StringC False]] 1 (Class NullCCls)
     = Inr (1, [IntC None None, OrC [IntC None None, StringC False, NullC]])
   \<and> or_chain [IntC None None] 0 [Class StringCCls, Class NullCCls, Class AnyCCls]
     = Inr (1, [IntC None None, OrC [IntC None None, StringC False, NullC, AnyC]])"
  using or_composition_flat
      [where h = "[IntC None None, StringC False]" and a = 0 and other = "Instance 1"
         and c = "StringC False" and k = ListCCls and ?c0.0 = AnyC and others = "[]"
         and cs = "[StringC False]" and alternatives = "[]"]
    or_composition_flat
      [where h = "[]" and k = IntCCls and ?c0.0 = "IntC None None" and other = "Class StringCCls"
         and c = "StringC False" and a = 0 and others = "[]" and cs = "[]"
         and alternatives = "[]"]
    or_composition_flat
      [where h = "[IntC None None, OrC [IntC None None, StringC False]]" and a = 1
         and alternatives = "[IntC None None, StringC False]" and other = "Class NullCCls"
         and c = NullC and k = ListCCls and ?c0.0 = AnyC and others = "[]" and cs = "[]"]
    or_composition_flat
      [where h = "[IntC None None]" and a = 0 and other = "Class StringCCls"
         and others = "[Class NullCCls, Class AnyCCls]" and cs = "[StringC False, NullC, AnyC]"
         and c = "StringC False" and k = ListCCls and ?c0.0 = AnyC and alternatives = "[]"]
  by (simp add: or_instance_def OrC_or_def OrC_lshift_def Contract_or_def OrC_init_def
      ContractMeta_or_def)

text \<open>
  C6 as stated makes every composition a new \<^verbatim>\<open>OrC\<close> and every repeated composition a
  flat one. The code flattens on the left only, and in place:
  \<^verbatim>\<open>OrC(IntC, StringC) | OrC(NullC, AnyC)\<close> is the first object itself, with the second
  \<^verbatim>\<open>OrC\<close> nested in it as its third alternative, and \<^verbatim>\<open>IntC() | OrC(StringC, NullC)\<close>
  is a new \<^verbatim>\<open>OrC\<close> of two alternatives, the second of which is an \<^verbatim>\<open>OrC\<close>.
\<close>

theorem or_composition_nested_counterexample:
  "or_instance [OrC [IntC None None, StringC False], OrC [NullC, AnyC]] 0 (Instance 1)
     = Inr (0, [OrC [IntC None None, StringC False, OrC [NullC, AnyC]], OrC [NullC, AnyC]])
   \<and> or_instance [IntC None None, OrC [StringC False, NullC]] 0 (Instance 1)
     = Inr (2, [IntC None None, OrC [StringC False, NullC],
                OrC [IntC None None, OrC [StringC False, NullC]]])"
  by (simp add: or_instance_def OrC_or_def OrC_lshift_def Contract_or_def OrC_init_def)

section \<open>The wildcard of allow\_optionals\<close>

lemma allow_optionals_loop_names:
  "''*'' \<notin> set names \<Longrightarrow> allow_optionals_loop names contracts optionals = optionals @ names"
  by (induction names arbitrary: optionals) auto

lemma check_presence_all_optional:
  "set keys \<subseteq> set optionals \<Longrightarrow> check_presence keys optionals kvs = Inr ()"
  by (induction keys) auto

text \<open>
  C9. For a \<^verbatim>\<open>DictC\<close> at the reference \<open>a\<close>, \<^verbatim>\<open>allow_optionals("*")\<close> returns \<open>a\<close>
  and leaves at \<open>a\<close> the same contract with \<^verbatim>\<open>optionals\<close> set to the keys declared at
  that moment (a list of its own). For that contract the presence pass fails for no mapping,
  so that a check is decided by the items that are present, and the empty mapping is
  accepted. \<^verbatim>\<open>allow_optionals\<close> with names other than the wildcard returns \<open>a\<close> and leaves
  at \<open>a\<close> the same contract with the names appended to \<^verbatim>\<open>optionals\<close>.
\<close>

theorem allow_optionals_in_place:
  "a < length h \<and> h ! a = DictC optionals extras allow_any contracts \<longrightarrow>
     allow_optionals h a [''*'']
       = Inr (a, h[a := DictC (map fst contracts) extras allow_any contracts])
     \<and> check_presence (map fst contracts) (map fst contracts) kvs = Inr ()
     \<and> outcome (DictC (map fst contracts) extras allow_any contracts) (VDict kvs)
         = fst (check_items check extras allow_any contracts kvs)
     \<and> outcome (DictC (map fst contracts) extras allow_any contracts) (VDict []) = Inr ()
     \<and> (''*'' \<notin> set names \<longrightarrow>
          allow_optionals h a names
            = Inr (a, h[a := DictC (optionals @ names) extras allow_any contracts]))"
  by (simp add: allow_optionals_def allow_optionals_loop_names check_presence_all_optional
      outcome_DictC)

text \<open>
  Instances: after \<^verbatim>\<open>allow_optionals("*")\<close> on \<^verbatim>\<open>DictC(foo=IntC, bar=StringC)\<close> the
  mappings \<^verbatim>\<open>{}\<close> and \<^verbatim>\<open>{"bar": "x"}\<close> are accepted, while before it \<^verbatim>\<open>{}\<close> fails; and
  \<^verbatim>\<open>DictC(foo=IntC).allow_optionals("foo").check({})\<close> succeeds.
\<close>

theorem allow_optionals_in_place_witness:
  "allow_optionals [AnyC, DictC [] [] False [(''foo'', IntC None None), (''bar'', StringC False)]]
      1 [''*'']
     = Inr (1, [AnyC, DictC [''foo'', ''bar''] [] False
                        [(''foo'', IntC None None), (''bar'', StringC False)]])
   \<and> outcome (DictC [''foo'', ''bar''] [] False
                 [(''foo'', IntC None None), (''bar'', StringC False)]) (VDict [])
     = Inr ()
   \<and> outcome (DictC [''foo'', ''bar''] [] False
                 [(''foo'', IntC None None), (''bar'', StringC False)]) (VDict [(''bar'', VStr ''x'')])
     = Inr ()
   \<and> outcome (DictC [] [] False [(''foo'', IntC None None), (''bar'', StringC False)]) (VDict [])
     = Inl (ContractValidationError ''foo is required'')
   \<and> allow_optionals [DictC [] [] False [(''foo'', IntC None None)]] 0 [''foo'']
     = Inr (0, [DictC [''foo''] [] False [(''foo'', IntC None None)]])
   \<and> outcome (DictC [''foo''] [] False [(''foo'', IntC None None)]) (VDict []) = Inr ()"
  using allow_optionals_in_place
      [where h = "[AnyC, DictC [] [] False [(''foo'', IntC None None), (''bar'', StringC False)]]"
         and a = 1 and optionals = "[]" and extras = "[]" and allow_any = False
         and contracts = "[(''foo'', IntC None None), (''bar'', StringC False)]"
         and kvs = "[(''bar'', VStr ''x'')]" and names = "[]"]
    allow_optionals_in_place
      [where h = "[DictC [] [] False [(''foo'', IntC None None)]]"
         and a = 0 and optionals = "[]" and extras = "[]" and allow_any = False
         and contracts = "[(''foo'', IntC None None)]"
         and kvs = "[]" and names = "[''foo'']"]
  by (simp add: outcome_DictC outcome_StringC failure_def check_eq)

section \<open>What changes a contract\<close>

lemma check_at_frame: "check_at h a v = (outcome (h ! a) v, h)"
  by (simp add: check_at_def check_eq)

text \<open>
  C10. A call of \<^verbatim>\<open>check\<close>, whatever the contract and the value and whether it succeeds
  or fails, leaves the contract as it was, sub-contracts included; called on an object of the
  store it leaves the store as it was. \<^verbatim>\<open>Contract.__or__\<close> adds an object and changes
  none. The builder methods, \<^verbatim>\<open>OrC.__lshift__\<close>, \<^verbatim>\<open>OrC.__or__\<close>,
  \<^verbatim>\<open>DictC.allow_extra\<close> and \<^verbatim>\<open>DictC.allow_optionals\<close>, return the object they were
  called on and change no other object.
\<close>

theorem check_leaves_contract_unchanged:
  "snd (check c v) = c
   \<and> snd (check_at h a v) = h
   \<and> (Contract_or h a other = Inr (r, h') \<longrightarrow> r = length h \<and> (\<exists>c. h' = h @ [c]))
   \<and> (OrC_lshift h a other = Inr (r, h') \<longrightarrow> r = a \<and> (\<exists>c. h' = h[a := c]))
   \<and> (OrC_or h a other = Inr (r, h') \<longrightarrow> r = a \<and> (\<exists>c. h' = h[a := c]))
   \<and> (allow_extra h a names = Inr (r, h') \<longrightarrow> r = a \<and> (\<exists>c. h' = h[a := c]))
   \<and> (allow_optionals h a names = Inr (r, h') \<longrightarrow> r = a \<and> (\<exists>c. h' = h[a := c]))"
proof -
  have 1: "snd (check c v) = c" by (rule check_frame)
  have 2: "snd (check_at h a v) = h" by (simp add: check_at_frame)
  have 3: "Contract_or h a other = Inr (r, h') \<longrightarrow> r = length h \<and> (\<exists>c. h' = h @ [c])"
    by (auto simp: Contract_or_def split: sum.splits)
  have 4: "OrC_lshift h a other = Inr (r, h') \<longrightarrow> r = a \<and> (\<exists>c. h' = h[a := c])"
    by (auto simp: OrC_lshift_def split: contract.splits sum.splits)
  have 5: "OrC_or h a other = Inr (r, h') \<longrightarrow> r = a \<and> (\<exists>c. h' = h[a := c])"
    by (auto simp: OrC_or_def OrC_lshift_def split: contract.splits sum.splits)
  have 6: "allow_extra h a names = Inr (r, h') \<longrightarrow> r = a \<and> (\<exists>c. h' = h[a := c])"
    by (auto simp: allow_extra_def split: contract.splits prod.splits)
  have 7: "allow_optionals h a names = Inr (r, h') \<longrightarrow> r = a \<and> (\<exists>c. h' = h[a := c])"
    by (auto simp: allow_optionals_def split: contract.splits)
  show ?thesis using 1 2 3 4 5 6 7 by blast
qed

text \<open>
  Instances: a failing check of a nested contract; \<^verbatim>\<open>IntC() | StringC\<close>; and the four builder
  methods, each of which changes its object.
\<close>

theorem check_leaves_contract_unchanged_witness:
  "check_at [OrC [NullC, ListC (IntC None None) 0 None]] 0 (VList [VInt 1, VStr ''x''])
     = (Inl (ContractValidationError ''no one contract matches''),
        [OrC [NullC, ListC (IntC None None) 0 None]])
   \<and> Contract_or [IntC None None] 0 (Class StringCCls)
     = Inr (1, [IntC None None] @ [OrC [IntC None None, StringC False]])
   \<and> OrC_lshift [OrC [IntC None None]] 0 (Class StringCCls)
     = Inr (0, [OrC [IntC None None]][0 := OrC [IntC None None, StringC False]])
   \<and> OrC_or [OrC [IntC None None]] 0 (Class StringCCls)
     = Inr (0, [OrC [IntC None None]][0 := OrC [IntC None None, StringC False]])
   \<and> allow_extra [DictC [] [] False []] 0 [''eggs'', ''*'']
     = Inr (0, [DictC [] [] False []][0 := DictC [] [''eggs''] True []])
   \<and> allow_optionals [DictC [] [] False []] 0 [''bar'']
     = Inr (0, [DictC [] [] False []][0 := DictC [''bar''] [] False []])"
  using check_leaves_contract_unchanged
      [where h = "[IntC None None]" and a = 0 and other = "Class StringCCls" and r = 1
         and h' = "[IntC None None] @ [OrC [IntC None None, StringC False]]"
         and c = AnyC and v = VNone and names = "[]"]
    check_leaves_contract_unchanged
      [where h = "[OrC [IntC None None]]" and a = 0 and other = "Class StringCCls" and r = 0
         and h' = "[OrC [IntC None None]][0 := OrC [IntC None None, StringC False]]"
         and c = AnyC and v = VNone and names = "[]"]
    check_leaves_contract_unchanged
      [where h = "[DictC [] [] False []]" and a = 0 and other = "Class StringCCls" and r = 0
         and h' = "[DictC [] [] False []][0 := DictC [] [''eggs''] True []]"
         and c = AnyC and v = VNone and names = "[''eggs'', ''*'']"]
    check_leaves_contract_unchanged
      [where h = "[DictC [] [] False []]" and a = 0 and other = "Class StringCCls" and r = 0
         and h' = "[DictC [] [] False []][0 := DictC [''bar''] [] False []]"
         and c = AnyC and v = VNone and names = "[''bar'']"]
  by (simp add: check_at_def Contract_or_def OrC_init_def OrC_lshift_def OrC_or_def
      allow_extra_def allow_optionals_def failure_def)

end
